theory Spec2Isabelle
  imports Main
begin

section \<open>Data model of the Metal backend primitives\<close>

text \<open>
  The development embeds \<^verbatim>\<open>mlx/backend/metal/primitives.cpp\<close>. Every
  \<^verbatim>\<open>eval_gpu\<close> member mutates its output array (a C++ reference) and talks to three
  collaborators: the allocator, the device (kernel lookup) and the command encoder. The
  embedding passes the output array and a device log explicitly; an exception or a failed
  assertion is a value that carries the output array and the log as they stand when
  control leaves the function, since the mutation of a reference survives the throw.
  Assertions are taken as checked: a failed \<^verbatim>\<open>assert\<close> ends the evaluation with
  \<open>Assertion_failed\<close>. Reads beyond a vector, a division by zero and a signed overflow
  are undefined behaviour in the source and are errors of the embedding.
\<close>

text \<open>The element types; \<open>bool_dtype\<close> is the source's \<^verbatim>\<open>bool_\<close>.\<close>

datatype Dtype =
  bool_dtype | uint8 | uint16 | uint32 | uint64 | int8 | int16 | int32 | int64
  | float16 | float32 | bfloat16 | complex64

datatype CopyType = Scalar | Vector | General | GeneralGeneral

record Flags =
  contiguous :: bool
  row_contiguous :: bool
  col_contiguous :: bool

datatype buffer = Null_buffer | Buffer nat

text \<open>
  An array as the primitives see it. \<open>shape\<close> is a \<^verbatim>\<open>std::vector<int>\<close>, \<open>strides\<close> a
  \<^verbatim>\<open>std::vector<size_t>\<close>. \<open>itemsize\<close> is carried with the array because the table from
  element type to byte width lives in a header outside this file. \<open>data\<close> is \<open>None\<close>
  until a buffer is bound; \<open>offset\<close> is the element offset of the view inside its buffer.
\<close>

record array =
  shape :: "int list"
  dtype :: Dtype
  itemsize :: nat
  strides :: "nat list"
  flags :: Flags
  data_size :: nat
  data :: "buffer option"
  offset :: nat

datatype error =
  Assertion_failed
  | Runtime_error string
  | Invalid_argument string
  | Kernel_not_found
  | Out_of_bounds
  | Division_by_zero
  | Signed_overflow

datatype kernel_name = Kernel string "Dtype option"

datatype payload =
  Arange_start Dtype
  | Arange_step Dtype
  | Bool_arg bool
  | Int_arg int
  | Size_arg nat
  | Ints_arg "int list"
  | Sizes_arg "nat list"

datatype event =
  Malloc_or_wait nat
  | Set_compute_pipeline_state kernel_name
  | Set_bytes payload nat nat
  | Set_input_array array nat
  | Set_output_array array nat
  | Dispatch_threads "nat \<times> nat \<times> nat" "nat \<times> nat \<times> nat"
  | Copy_gpu array array CopyType
  | Copy_gpu_inplace array array CopyType
  | Copy_gpu_inplace_strided array array "int list" "int list" "int list" int int CopyType
  | Start_concurrent
  | Unary_op string

record metal =
  trace :: "event list"
  next_buffer :: nat

text \<open>
  Modelled from the spec: the device collaborator \<^verbatim>\<open>get_kernel(name) -> CompiledKernel\<close>
  fails if no kernel is registered under the name. A device is the table of its kernels:
  a lookup answers with the kernel's \<^verbatim>\<open>maxTotalThreadsPerThreadgroup()\<close>, or with
  \<open>None\<close> when the lookup fails. The name is the string prefix the source builds,
  together with the element type that \<^verbatim>\<open>type_to_name\<close> appends to it.
\<close>

type_synonym device = "kernel_name \<Rightarrow> nat option"

type_synonym 'o result = "(error \<times> 'o \<times> metal) + ('o \<times> metal)"

text \<open>A call on the command encoder appends its event to the log.\<close>

definition emit :: "event \<Rightarrow> metal \<Rightarrow> metal" where
  "emit e st = st\<lparr>trace := trace st @ [e]\<rparr>"

subsection \<open>Machine integers\<close>

text \<open>
  \<^verbatim>\<open>size_t\<close> and \<^verbatim>\<open>NS::UInteger\<close> are 64-bit unsigned: values are naturals below
  \<open>2 ^ 64\<close> and every operation wraps. \<^verbatim>\<open>int\<close> is 32-bit signed; its overflow is
  undefined behaviour and is an error of the model.
\<close>

definition size_t :: "int \<Rightarrow> nat" where
  "size_t i = nat (i mod 2 ^ 64)"

definition sz_add :: "nat \<Rightarrow> nat \<Rightarrow> nat" where
  "sz_add a b = (a + b) mod 2 ^ 64"

definition sz_sub :: "nat \<Rightarrow> nat \<Rightarrow> nat" where
  "sz_sub a b = (a + 2 ^ 64 - b mod 2 ^ 64) mod 2 ^ 64"

definition sz_mul :: "nat \<Rightarrow> nat \<Rightarrow> nat" where
  "sz_mul a b = (a * b) mod 2 ^ 64"

definition int_add :: "int \<Rightarrow> int \<Rightarrow> error + int" where
  "int_add a b =
     (if - (2 ^ 31) \<le> a + b \<and> a + b < 2 ^ 31 then Inr (a + b) else Inl Signed_overflow)"

subsection \<open>Collaborators outside the file\<close>

text \<open>
  Modelled from the spec: \<^verbatim>\<open>array::size()\<close> is declared in the array header, which is
  not part of this file; the spec says that a tensor's declared size equals the product
  of its shape.
\<close>

definition array_size :: "array \<Rightarrow> nat" where
  "array_size a = nat (prod_list (shape a))"

text \<open>
  Modelled from the spec: \<^verbatim>\<open>array::nbytes()\<close> and \<^verbatim>\<open>array::ndim()\<close> are declared in the
  array header; the byte size is the element count times the element width and the rank
  is the length of the shape.
\<close>

definition nbytes :: "array \<Rightarrow> nat" where
  "nbytes a = array_size a * itemsize a"

definition ndim :: "array \<Rightarrow> nat" where
  "ndim a = length (shape a)"

text \<open>
  Modelled from the spec: the allocation collaborator \<^verbatim>\<open>allocate(nbytes) -> Buffer\<close>.
  Every call is logged with the requested byte count and answers with a handle not
  handed out before. Memory exhaustion is outside the model.
\<close>

definition malloc_or_wait :: "nat \<Rightarrow> metal \<Rightarrow> buffer \<times> metal" where
  "malloc_or_wait n st =
     (Buffer (next_buffer st),
      st\<lparr>trace := trace st @ [Malloc_or_wait n], next_buffer := Suc (next_buffer st)\<rparr>)"

text \<open>
  Modelled from the spec: \<^verbatim>\<open>array::set_data\<close> binds a buffer to the array; the layout
  metadata stays as constructed.
\<close>

definition set_data :: "array \<Rightarrow> buffer \<Rightarrow> array" where
  "set_data a b = a\<lparr>data := Some b, offset := 0\<rparr>"

text \<open>
  Modelled from the spec: \<^verbatim>\<open>shared_view(parent, strides, flags, size, offset)\<close> produces
  a tensor on the parent's buffer, sharing ownership with it, with no data copy; the
  offset is expressed in elements and is relative to the parent's own view.
\<close>

definition copy_shared_buffer5 :: "array \<Rightarrow> array \<Rightarrow> nat list \<Rightarrow> Flags \<Rightarrow> nat \<Rightarrow> nat \<Rightarrow> array" where
  "copy_shared_buffer5 self other strides' flags' data_size' off =
     self\<lparr>strides := strides', flags := flags', data_size := data_size',
          data := data other, offset := offset other + off\<rparr>"

text \<open>
  Modelled from the spec: the one-argument \<^verbatim>\<open>copy_shared_buffer(other)\<close> aliases the
  other tensor into this one: same buffer, same layout, no offset.
\<close>

definition copy_shared_buffer :: "array \<Rightarrow> array \<Rightarrow> array" where
  "copy_shared_buffer self other =
     copy_shared_buffer5 self other (strides other) (flags other) (data_size other) 0"

text \<open>
  Modelled from the spec: the array constructor \<^verbatim>\<open>array(shape, dtype, nullptr, {})\<close>
  used for the slices: a tensor of the given shape and element type with no data bound.
  Its layout fields are overwritten by the sharing operation that follows each use.
\<close>

definition new_array :: "int list \<Rightarrow> Dtype \<Rightarrow> nat \<Rightarrow> array" where
  "new_array shp dt isz =
     \<lparr>shape = shp, dtype = dt, itemsize = isz, strides = [],
      flags = \<lparr>contiguous = True, row_contiguous = True, col_contiguous = True\<rparr>,
      data_size = 0, data = None, offset = 0\<rparr>"

text \<open>
  Modelled from the spec: the Copy Engine \<^verbatim>\<open>copy(src, dst, classification)\<close> moves data
  from the source into the destination's buffer, allocating the destination's buffer
  first if it is not already bound. The copy itself is one logged request.
\<close>

definition copy_gpu :: "array \<Rightarrow> array \<Rightarrow> CopyType \<Rightarrow> metal \<Rightarrow> array \<times> metal" where
  "copy_gpu src dst ctype st =
     (if data dst = None then
        (let (buf, st1) = malloc_or_wait (nbytes dst) st;
             dst1 = set_data dst buf
         in (dst1, emit (Copy_gpu src dst1 ctype) st1))
      else (dst, emit (Copy_gpu src dst ctype) st))"

text \<open>
  Modelled from the spec: the in-place copy writes into a destination that is already
  bound; it is one logged request and leaves the destination's metadata alone.
\<close>

definition copy_gpu_inplace :: "array \<Rightarrow> array \<Rightarrow> CopyType \<Rightarrow> metal \<Rightarrow> metal" where
  "copy_gpu_inplace src dst ctype st = emit (Copy_gpu_inplace src dst ctype) st"

text \<open>
  Modelled from the spec: the in-place copy with explicit shape, strides and offsets on
  both sides; again one logged request.
\<close>

definition copy_gpu_inplace_strided ::
  "array \<Rightarrow> array \<Rightarrow> int list \<Rightarrow> int list \<Rightarrow> int list \<Rightarrow> int \<Rightarrow> int \<Rightarrow> CopyType \<Rightarrow> metal \<Rightarrow> metal" where
  "copy_gpu_inplace_strided src dst data_shape i_strides o_strides i_offset o_offset ctype st =
     emit (Copy_gpu_inplace_strided src dst data_shape i_strides o_strides i_offset o_offset ctype) st"

section \<open>The primitives\<close>

subsection \<open>Dense factorization stubs\<close>

definition QRF_eval_gpu :: "array list \<Rightarrow> array list \<Rightarrow> metal \<Rightarrow> (array list) result" where
  "QRF_eval_gpu inputs outputs st =
     Inl (Runtime_error ''[QRF::eval_gpu] Metal QR factorization NYI.'', outputs, st)"

definition SVD_eval_gpu :: "array list \<Rightarrow> array list \<Rightarrow> metal \<Rightarrow> (array list) result" where
  "SVD_eval_gpu inputs outputs st =
     Inl (Runtime_error ''[SVD::eval_gpu] Metal SVD NYI.'', outputs, st)"

definition Inverse_eval_gpu :: "array list \<Rightarrow> array \<Rightarrow> metal \<Rightarrow> array result" where
  "Inverse_eval_gpu inputs output st =
     Inl (Runtime_error ''[Inverse::eval_gpu] Metal inversion NYI.'', output, st)"

subsection \<open>Arange\<close>

text \<open>
  \<^verbatim>\<open>arange_set_scalars<T>\<close> binds the start in slot 0 and the step in slot 1, each
  \<^verbatim>\<open>sizeof(T)\<close> bytes wide. The values are conversions of doubles and are kept
  symbolic: only the element type is recorded.
\<close>

definition arange_set_scalars :: "Dtype \<Rightarrow> nat \<Rightarrow> metal \<Rightarrow> metal" where
  "arange_set_scalars t sizeof_t st =
     emit (Set_bytes (Arange_step t) sizeof_t 1) (emit (Set_bytes (Arange_start t) sizeof_t 0) st)"

text \<open>The \<^verbatim>\<open>switch (out.dtype())\<close> of \<^verbatim>\<open>Arange::eval_gpu\<close>, in the order of its cases.\<close>

fun arange_switch :: "Dtype \<Rightarrow> metal \<Rightarrow> error + metal" where
  "arange_switch bool_dtype st = Inl (Runtime_error ''[Arange::eval_gpu] Does not support bool'')"
| "arange_switch uint8 st = Inr (arange_set_scalars uint8 1 st)"
| "arange_switch uint16 st = Inr (arange_set_scalars uint16 2 st)"
| "arange_switch uint32 st = Inr (arange_set_scalars uint32 4 st)"
| "arange_switch uint64 st = Inr (arange_set_scalars uint64 8 st)"
| "arange_switch int8 st = Inr (arange_set_scalars int8 1 st)"
| "arange_switch int16 st = Inr (arange_set_scalars int16 2 st)"
| "arange_switch int32 st = Inr (arange_set_scalars int32 4 st)"
| "arange_switch int64 st = Inr (arange_set_scalars int64 8 st)"
| "arange_switch float16 st = Inr (arange_set_scalars float16 2 st)"
| "arange_switch float32 st = Inr (arange_set_scalars float32 4 st)"
| "arange_switch bfloat16 st = Inr (arange_set_scalars bfloat16 2 st)"
| "arange_switch complex64 st =
     Inl (Runtime_error ''[Arange::eval_gpu] Does not support complex64'')"

definition Arange_eval_gpu :: "device \<Rightarrow> array list \<Rightarrow> array \<Rightarrow> metal \<Rightarrow> array result" where
  "Arange_eval_gpu d inputs out st =
     (if length inputs \<noteq> 0 then Inl (Assertion_failed, out, st)
      else
        let (buf, st1) = malloc_or_wait (nbytes out) st;
            out1 = set_data out buf
        in if array_size out1 = 0 then Inr (out1, st1)
           else
             (case d (Kernel ''arange'' (Some (dtype out1))) of
                None \<Rightarrow> Inl (Kernel_not_found, out1, st1)
              | Some max_threads \<Rightarrow>
                  let nthreads = array_size out1;
                      grid_dims = (nthreads, 1, 1);
                      group_dims = (min nthreads max_threads, 1, 1);
                      st2 = emit (Set_compute_pipeline_state
                                    (Kernel ''arange'' (Some (dtype out1)))) st1
                  in (case arange_switch (dtype out1) st2 of
                        Inl e \<Rightarrow> Inl (e, out1, st2)
                      | Inr st3 \<Rightarrow>
                          Inr (out1, emit (Dispatch_threads grid_dims group_dims)
                                       (emit (Set_output_array out1 2) st3)))))"

subsection \<open>Conjugate\<close>

text \<open>
  Modelled from the spec: \<^verbatim>\<open>unary_op\<close> is defined outside this file; the elementwise
  kernel it runs is one logged request.
\<close>

definition Conjugate_eval_gpu :: "array list \<Rightarrow> array \<Rightarrow> metal \<Rightarrow> array result" where
  "Conjugate_eval_gpu inputs out st =
     (if length inputs \<noteq> 1 then Inl (Assertion_failed, out, st)
      else if dtype out = complex64 then Inr (out, emit (Unary_op ''conj'') st)
      else Inl (Invalid_argument ''[conjugate] conjugate must be called on complex input.'',
                out, st))"

subsection \<open>Full\<close>

text \<open>The choice of the copy class in \<^verbatim>\<open>Full::eval_gpu\<close>.\<close>

definition Full_ctype :: "array \<Rightarrow> CopyType" where
  "Full_ctype inp =
     (if data_size inp = 1 then Scalar
      else if contiguous (flags inp) then Vector
      else General)"

text \<open>\<^verbatim>\<open>inputs[0]\<close> on an empty vector is an out-of-bounds read.\<close>

definition Full_eval_gpu :: "array list \<Rightarrow> array \<Rightarrow> metal \<Rightarrow> array result" where
  "Full_eval_gpu inputs out st =
     (case inputs of
        [] \<Rightarrow> Inl (Out_of_bounds, out, st)
      | inp # _ \<Rightarrow> Inr (copy_gpu inp out (Full_ctype inp) st))"

subsection \<open>Slice and SliceUpdate\<close>

text \<open>A \<^verbatim>\<open>size_t\<close> stored into an \<^verbatim>\<open>int64_t\<close>.\<close>

definition int64_t :: "nat \<Rightarrow> int" where
  "int64_t n =
     (if n mod 2 ^ 64 < 2 ^ 63 then int (n mod 2 ^ 64) else int (n mod 2 ^ 64) - 2 ^ 64)"

text \<open>
  \<^verbatim>\<open>Slice::prepare_slice\<close> and \<^verbatim>\<open>shared_buffer_slice\<close> are defined outside this file
  and are parameters of the embedding.
\<close>

definition Slice_eval_gpu ::
  "(array \<Rightarrow> bool \<times> int \<times> int list) \<Rightarrow> (array \<Rightarrow> nat list \<Rightarrow> int \<Rightarrow> array \<Rightarrow> array) \<Rightarrow>
   array list \<Rightarrow> array \<Rightarrow> metal \<Rightarrow> array result" where
  "Slice_eval_gpu prepare_slice shared_buffer_slice inputs out st =
     (if length inputs \<noteq> 1 then Inl (Assertion_failed, out, st)
      else if array_size out = 0 then Inr (set_data out Null_buffer, st)
      else
        let inp = inputs ! 0;
            (copy_needed, data_offset, inp_strides) = prepare_slice inp
        in if copy_needed then
             (let (buf, st1) = malloc_or_wait (nbytes out) st;
                  out1 = set_data out buf;
                  ostrides = map int64_t (strides out1)
              in Inr (out1, copy_gpu_inplace_strided inp out1 (shape out1) inp_strides ostrides
                              data_offset 0 General st1))
           else
             (let ostrides = map size_t inp_strides
              in Inr (shared_buffer_slice inp ostrides data_offset out, st)))"

text \<open>\<^verbatim>\<open>SliceUpdate::prepare_slice\<close> is defined outside this file and is a parameter.\<close>

definition SliceUpdate_eval_gpu ::
  "(array \<Rightarrow> int \<times> int list) \<Rightarrow> array list \<Rightarrow> array \<Rightarrow> metal \<Rightarrow> array result" where
  "SliceUpdate_eval_gpu prepare_slice inputs out st =
     (if length inputs \<noteq> 2 then Inl (Assertion_failed, out, st)
      else if array_size out = 0 then Inr (set_data out Null_buffer, st)
      else
        let inp = inputs ! 0;
            upd = inputs ! 1
        in if array_size upd = 0 then Inr (copy_shared_buffer out inp, st)
           else
             let ctype = (if contiguous (flags inp) \<and> array_size inp = data_size inp
                          then Vector else General);
                 (out1, st1) = copy_gpu inp out (if data_size inp = 1 then Scalar else ctype) st;
                 (data_offset, out_strides) = prepare_slice out1;
                 upd_strides = map int64_t (strides upd)
             in Inr (out1, copy_gpu_inplace_strided upd out1 (shape upd) upd_strides out_strides
                             0 data_offset GeneralGeneral st1))"

subsection \<open>RandomBits\<close>

definition emits :: "event list \<Rightarrow> metal \<Rightarrow> metal" where
  "emits es st = st\<lparr>trace := trace st @ es\<rparr>"

text \<open>
  \<^verbatim>\<open>out.size() / num_keys\<close> with \<^verbatim>\<open>num_keys == 0\<close> is a division by zero and an error
  of the model.
\<close>

definition RandomBits_eval_gpu :: "device \<Rightarrow> array list \<Rightarrow> array \<Rightarrow> metal \<Rightarrow> array result" where
  "RandomBits_eval_gpu d inputs out st =
     (if length inputs \<noteq> 1 then Inl (Assertion_failed, out, st)
      else
        let keys = inputs ! 0;
            num_keys = array_size keys div 2
        in if num_keys = 0 then Inl (Division_by_zero, out, st)
           else
             let elems_per_key = array_size out div num_keys;
                 bytes_per_key = sz_mul (itemsize out) elems_per_key;
                 (buf, st1) = malloc_or_wait (nbytes out) st;
                 out1 = set_data out buf
             in if array_size out1 = 0 then Inr (out1, st1)
                else
                  let out_per_key = sz_sub (sz_add bytes_per_key 4) 1 div 4;
                      half_size = out_per_key div 2;
                      odd = (out_per_key mod 2 \<noteq> 0);
                      kname = Kernel (if row_contiguous (flags keys) then ''rbitsc''
                                      else ''rbits'') None
                  in (case d kname of
                        None \<Rightarrow> Inl (Kernel_not_found, out1, st1)
                      | Some max_threads \<Rightarrow>
                          let grid_dims = (num_keys, sz_add half_size (if odd then 1 else 0), 1);
                              group_dims = (max_threads, 1, 1);
                              st2 = emits [Set_compute_pipeline_state kname,
                                           Set_input_array keys 0,
                                           Set_output_array out1 1,
                                           Set_bytes (Bool_arg odd) 1 2,
                                           Set_bytes (Size_arg bytes_per_key) 8 3] st1;
                              st3 = (if \<not> row_contiguous (flags keys) then
                                       emits [Set_bytes (Int_arg (int (ndim keys))) 4 4,
                                              Set_bytes (Ints_arg (shape keys)) (ndim keys * 4) 5,
                                              Set_bytes (Sizes_arg (strides keys)) (ndim keys * 8) 6]
                                         st2
                                     else st2)
                          in Inr (out1, emit (Dispatch_threads grid_dims group_dims) st3)))"

subsection \<open>ArgReduce\<close>

datatype ReduceType = ArgMin | ArgMax

text \<open>\<^verbatim>\<open>v.erase(v.begin() + k)\<close> for a position inside the vector.\<close>

definition erase :: "'a list \<Rightarrow> nat \<Rightarrow> 'a list" where
  "erase xs k = take k xs @ drop (Suc k) xs"

text \<open>
  The thread-group size: \<^verbatim>\<open>n_reads = 4\<close> elements per thread, capped at the kernel's
  maximum, then rounded up to a multiple of \<^verbatim>\<open>simd_size = 32\<close>.
\<close>

definition arg_reduce_group_size :: "nat \<Rightarrow> nat \<Rightarrow> nat" where
  "arg_reduce_group_size axis_size max_threads =
     (let thread_group_size = min (sz_sub (sz_add axis_size 4) 1 div 4) max_threads
      in sz_mul (sz_sub (sz_add thread_group_size 32) 1 div 32) 32)"

definition ArgReduce_eval_gpu ::
  "device \<Rightarrow> ReduceType \<Rightarrow> int \<Rightarrow> array list \<Rightarrow> array \<Rightarrow> metal \<Rightarrow> array result" where
  "ArgReduce_eval_gpu d reduce_type axis inputs out st =
     (if length inputs \<noteq> 1 then Inl (Assertion_failed, out, st)
      else
        let inp = inputs ! 0;
            (buf, st1) = malloc_or_wait (nbytes out) st;
            out1 = set_data out buf;
            op_name = (case reduce_type of ArgMin \<Rightarrow> ''argmin_'' | ArgMax \<Rightarrow> ''argmax_'');
            in_strides = strides inp;
            shp = shape inp;
            out_strides = strides out1
        in if \<not> size_t axis < length in_strides then Inl (Out_of_bounds, out1, st1)
           else if \<not> size_t axis < length shp then Inl (Out_of_bounds, out1, st1)
           else
             let axis_stride = in_strides ! size_t axis;
                 axis_size = size_t (shp ! size_t axis);
                 out_strides1 = (if length out_strides = length in_strides
                                 then erase out_strides (size_t axis) else out_strides);
                 in_strides1 = erase in_strides (size_t axis);
                 shp1 = erase shp (size_t axis);
                 ndim1 = length shp1;
                 kname = Kernel op_name (Some (dtype inp))
             in (case d kname of
                   None \<Rightarrow> Inl (Kernel_not_found, out1, st1)
                 | Some max_threads \<Rightarrow>
                     let thread_group_size = arg_reduce_group_size axis_size max_threads
                     in if \<not> thread_group_size \<le> max_threads
                        then Inl (Assertion_failed, out1, st1)
                        else
                          let n_threads = sz_mul (array_size out1) thread_group_size;
                              grid_dims = (n_threads, 1, 1);
                              group_dims = (thread_group_size, 1, 1);
                              st2 = emits [Set_compute_pipeline_state kname,
                                           Set_input_array inp 0,
                                           Set_output_array out1 1] st1;
                              st3 = (if ndim1 = 0 then
                                       emits [Set_bytes (Int_arg 0) 4 2,
                                              Set_bytes (Size_arg 0) 8 3,
                                              Set_bytes (Size_arg 0) 8 4] st2
                                     else
                                       emits [Set_bytes (Ints_arg shp1) (ndim1 * 4) 2,
                                              Set_bytes (Sizes_arg in_strides1) (ndim1 * 8) 3,
                                              Set_bytes (Sizes_arg out_strides1) (ndim1 * 8) 4] st2);
                              st4 = emits [Set_bytes (Size_arg ndim1) 8 5,
                                           Set_bytes (Size_arg axis_stride) 8 6,
                                           Set_bytes (Size_arg axis_size) 8 7] st3
                          in Inr (out1, emit (Dispatch_threads grid_dims group_dims) st4)))"

subsection \<open>Pad\<close>

text \<open>
  The offset loop of \<^verbatim>\<open>Pad::eval_gpu\<close>, walking \<^verbatim>\<open>axes_\<close> and \<^verbatim>\<open>low_pad_size_\<close>
  by position. The axis is a \<^verbatim>\<open>size_t\<close>: a negative \<^verbatim>\<open>axes_[i]\<close> is added to
  \<^verbatim>\<open>out.ndim()\<close> with wrap-around. A read beyond \<^verbatim>\<open>low_pad_size_\<close> or beyond the
  strides is an error of the model.
\<close>

fun pad_offset :: "array \<Rightarrow> int list \<Rightarrow> int list \<Rightarrow> nat \<Rightarrow> error + nat" where
  "pad_offset out [] lows data_offset = Inr data_offset"
| "pad_offset out (a # axes) [] data_offset = Inl Out_of_bounds"
| "pad_offset out (a # axes) (l # lows) data_offset =
     (let ax = (if a < 0 then sz_add (ndim out) (size_t a) else size_t a)
      in if ax < length (strides out)
         then pad_offset out axes lows
                (sz_add data_offset (sz_mul (strides out ! ax) (size_t l)))
         else Inl Out_of_bounds)"

definition Pad_eval_gpu ::
  "int list \<Rightarrow> int list \<Rightarrow> array list \<Rightarrow> array \<Rightarrow> metal \<Rightarrow> array result" where
  "Pad_eval_gpu axes low_pad_size inputs out st =
     (if length inputs \<noteq> 2 then Inl (Assertion_failed, out, st)
      else
        let inp = inputs ! 0;
            val = inputs ! 1
        in if array_size val \<noteq> 1 then Inl (Assertion_failed, out, st)
           else if \<not> (dtype val = dtype inp \<and> dtype inp = dtype out)
           then Inl (Assertion_failed, out, st)
           else
             let (out1, st1) = copy_gpu val out Scalar st
             in (case pad_offset out1 axes low_pad_size 0 of
                   Inl e \<Rightarrow> Inl (e, out1, st1)
                 | Inr data_offset \<Rightarrow>
                     let out_slice0 = new_array (shape inp) (dtype out1) (itemsize out1);
                         out_slice = copy_shared_buffer5 out_slice0 out1 (strides out1)
                                       (flags out1) (array_size out_slice0) data_offset
                     in Inr (out1, copy_gpu_inplace inp out_slice GeneralGeneral st1)))"

subsection \<open>Concatenate\<close>

text \<open>
  Modelled from the spec: \<^verbatim>\<open>array::shape(int)\<close> is declared in the array header; it
  reads the shape at an axis within the rank, and an axis outside is an error.
\<close>

definition shape_at :: "array \<Rightarrow> int \<Rightarrow> error + int" where
  "shape_at a ax =
     (if 0 \<le> ax \<and> nat ax < length (shape a) then Inr (shape a ! nat ax) else Inl Out_of_bounds)"

text \<open>The first loop: \<^verbatim>\<open>sizes.push_back(p.shape(axis_))\<close> for every input.\<close>

fun concat_sizes :: "int \<Rightarrow> array list \<Rightarrow> error + int list" where
  "concat_sizes axis [] = Inr []"
| "concat_sizes axis (p # ps) =
     (case shape_at p axis of
        Inl e \<Rightarrow> Inl e
      | Inr n \<Rightarrow> (case concat_sizes axis ps of Inl e \<Rightarrow> Inl e | Inr ns \<Rightarrow> Inr (n # ns)))"

text \<open>\<^verbatim>\<open>std::partial_sum\<close> in place, on \<^verbatim>\<open>int\<close>.\<close>

fun partial_sum_from :: "int \<Rightarrow> int list \<Rightarrow> error + int list" where
  "partial_sum_from acc [] = Inr []"
| "partial_sum_from acc (x # xs) =
     (case int_add acc x of
        Inl e \<Rightarrow> Inl e
      | Inr s \<Rightarrow> (case partial_sum_from s xs of Inl e \<Rightarrow> Inl e | Inr r \<Rightarrow> Inr (s # r)))"

definition partial_sum :: "int list \<Rightarrow> error + int list" where
  "partial_sum xs =
     (case xs of
        [] \<Rightarrow> Inr []
      | x # xs' \<Rightarrow> (case partial_sum_from x xs' of Inl e \<Rightarrow> Inl e | Inr r \<Rightarrow> Inr (x # r)))"

text \<open>The slice of the output that input \<open>p\<close> is copied into, at cumulative size \<open>s\<close>.\<close>

definition concat_slice :: "array \<Rightarrow> nat list \<Rightarrow> Flags \<Rightarrow> int \<Rightarrow> array \<Rightarrow> int \<Rightarrow> array" where
  "concat_slice out strides1 flags1 axis p s =
     (let out_slice0 = new_array (shape p) (dtype out) (itemsize out);
          data_offset = sz_mul (strides1 ! size_t axis) (size_t s)
      in copy_shared_buffer5 out_slice0 out strides1 flags1 (array_size out_slice0) data_offset)"

text \<open>
  The second loop, over the inputs and the cumulative sizes by position.
  \<^verbatim>\<open>strides[axis_]\<close> beyond the strides is an error of the model.
\<close>

fun concat_loop ::
  "array \<Rightarrow> nat list \<Rightarrow> Flags \<Rightarrow> int \<Rightarrow> array list \<Rightarrow> int list \<Rightarrow> metal \<Rightarrow> (error \<times> metal) + metal" where
  "concat_loop out strides1 flags1 axis [] sizes st = Inr st"
| "concat_loop out strides1 flags1 axis (p # ps) [] st = Inl (Out_of_bounds, st)"
| "concat_loop out strides1 flags1 axis (p # ps) (s # sizes) st =
     (if size_t axis < length strides1
      then concat_loop out strides1 flags1 axis ps sizes
             (copy_gpu_inplace p (concat_slice out strides1 flags1 axis p s) GeneralGeneral st)
      else Inl (Out_of_bounds, st))"

definition Concatenate_eval_gpu :: "int \<Rightarrow> array list \<Rightarrow> array \<Rightarrow> metal \<Rightarrow> array result" where
  "Concatenate_eval_gpu axis inputs out st =
     (case concat_sizes axis inputs of
        Inl e \<Rightarrow> Inl (e, out, st)
      | Inr ns \<Rightarrow>
          (case partial_sum (0 # ns) of
             Inl e \<Rightarrow> Inl (e, out, st)
           | Inr sizes \<Rightarrow>
               let (buf, st1) = malloc_or_wait (nbytes out) st;
                   out1 = set_data out buf;
                   strides1 = strides out1;
                   flags1 = (flags out1)\<lparr>row_contiguous := False, col_contiguous := False,
                                          contiguous := False\<rparr>;
                   st2 = emit Start_concurrent st1
               in (case concat_loop out1 strides1 flags1 axis inputs sizes st2 of
                     Inl (e, st3) \<Rightarrow> Inl (e, out1, st3)
                   | Inr st3 \<Rightarrow> Inr (out1, st3))))"

subsection \<open>Addressed elements of a view\<close>

text \<open>
  The buffer positions, relative to the start of the view, that a tensor of the given
  shape and strides addresses: one per multi-index, outermost axis first.
\<close>

fun elem_offsets :: "nat list \<Rightarrow> nat list \<Rightarrow> nat list" where
  "elem_offsets [] ss = [0]"
| "elem_offsets (n # ns) [] = []"
| "elem_offsets (n # ns) (s # ss) =
     concat (map (\<lambda>i. map (\<lambda>r. i * s + r) (elem_offsets ns ss)) [0..<n])"

definition view_elems :: "array \<Rightarrow> nat list" where
  "view_elems a = map (\<lambda>r. offset a + r) (elem_offsets (map nat (shape a)) (strides a))"

text \<open>The canonical row-major strides of a shape.\<close>

fun row_major :: "nat list \<Rightarrow> nat list" where
  "row_major [] = []"
| "row_major (n # ns) = prod_list ns # row_major ns"

subsection \<open>Reading the device log\<close>

text \<open>The dispatches recorded in a device log, in the order of issue.\<close>

definition is_dispatch :: "event \<Rightarrow> bool" where
  "is_dispatch e = (case e of Dispatch_threads grid_dims group_dims \<Rightarrow> True | _ \<Rightarrow> False)"

definition dispatches :: "metal \<Rightarrow> event list" where
  "dispatches st = filter is_dispatch (trace st)"

subsection \<open>The interior offset of Pad, as the specification words it\<close>

text \<open>
  The specification resolves a negative axis as \<open>ndim + axis\<close> and takes, as the offset
  of the interior, the sum over the given axes of the low padding times the output's
  stride along the axis. These two definitions follow those words; they are compared with
  \<open>pad_offset\<close>, which follows the source.
\<close>

definition spec_pad_axis :: "array \<Rightarrow> int \<Rightarrow> nat" where
  "spec_pad_axis out a = nat (if a < 0 then int (ndim out) + a else a)"

definition spec_pad_offset :: "array \<Rightarrow> int list \<Rightarrow> int list \<Rightarrow> nat" where
  "spec_pad_offset out axes lows =
     sum_list (map2 (\<lambda>a l. nat l * (strides out ! spec_pad_axis out a)) axes lows)"

subsection \<open>The slices of Concatenate, as the specification words them\<close>

text \<open>
  The specification places input \<open>i\<close> at the prefix sum of the sizes, along the axis, of
  the inputs before it, times the output's stride along the axis, in a view of the
  output's buffer that has the input's shape, the output's strides and all three
  contiguity flags cleared. These definitions follow those words; they are compared with
  \<open>concat_loop\<close>, which follows the source.
\<close>

definition spec_concat_offset :: "array \<Rightarrow> int \<Rightarrow> array list \<Rightarrow> nat \<Rightarrow> nat" where
  "spec_concat_offset out axis inputs i =
     strides out ! nat axis * sum_list (map (\<lambda>p. nat (shape p ! nat axis)) (take i inputs))"

definition spec_concat_view :: "array \<Rightarrow> buffer \<Rightarrow> int \<Rightarrow> array list \<Rightarrow> nat \<Rightarrow> array" where
  "spec_concat_view out buf axis inputs i =
     \<lparr>shape = shape (inputs ! i), dtype = dtype out, itemsize = itemsize out,
      strides = strides out,
      flags = \<lparr>contiguous = False, row_contiguous = False, col_contiguous = False\<rparr>,
      data_size = array_size (inputs ! i), data = Some buf,
      offset = spec_concat_offset out axis inputs i\<rparr>"

section \<open>Verified properties\<close>

text \<open>
  C9. QRF, SVD and Inverse raise their not-implemented error on every input; the outputs
  and the device log at the raise are the ones passed in, so nothing was allocated and
  nothing dispatched.
\<close>

theorem stubs_always_raise:
  "QRF_eval_gpu inputs outputs st =
     Inl (Runtime_error ''[QRF::eval_gpu] Metal QR factorization NYI.'', outputs, st)
   \<and> SVD_eval_gpu inputs outputs st =
     Inl (Runtime_error ''[SVD::eval_gpu] Metal SVD NYI.'', outputs, st)
   \<and> Inverse_eval_gpu inputs' output st =
     Inl (Runtime_error ''[Inverse::eval_gpu] Metal inversion NYI.'', output, st)"
  by (simp add: QRF_eval_gpu_def SVD_eval_gpu_def Inverse_eval_gpu_def)

subsection \<open>Machine integers without wrap-around\<close>

lemma sz_add_small: "a + b < 2 ^ 64 \<Longrightarrow> sz_add a b = a + b"
  by (simp add: sz_add_def)

lemma sz_sub_small: "b \<le> a \<Longrightarrow> a < 2 ^ 64 \<Longrightarrow> sz_sub a b = a - b"
proof -
  assume h: "b \<le> a" "a < 2 ^ 64"
  then have "b mod 2 ^ 64 = b" by simp
  moreover have "(a + 2 ^ 64 - b) mod 2 ^ 64 = (a - b + 2 ^ 64) mod 2 ^ 64"
    using h by simp
  moreover have "a - b < 2 ^ 64" using h by arith
  ultimately show ?thesis by (simp add: sz_sub_def)
qed

lemma sz_mul_small: "a * b < 2 ^ 64 \<Longrightarrow> sz_mul a b = a * b"
  by (simp add: sz_mul_def)

lemma sz_round_up:
  assumes "b + k < 2 ^ 64" and "0 < k"
  shows "sz_sub (sz_add b k) 1 = b + k - 1"
  using assms by (simp add: sz_add_small sz_sub_small)

lemma dispatches_emit:
  "dispatches (emit e st) = dispatches st @ (if is_dispatch e then [e] else [])"
  by (simp add: dispatches_def emit_def)

lemma dispatches_emits:
  "dispatches (emits es st) = dispatches st @ filter is_dispatch es"
  by (simp add: dispatches_def emits_def)

lemma dispatches_malloc: "dispatches (snd (malloc_or_wait n st)) = dispatches st"
  by (simp add: dispatches_def malloc_or_wait_def is_dispatch_def)


lemma size_t_nat: "0 \<le> i \<Longrightarrow> i < 2 ^ 31 \<Longrightarrow> size_t i = nat i"
  by (simp add: size_t_def)




subsection \<open>Empty outputs\<close>

lemma arg_reduce_group_size_5_1024: "arg_reduce_group_size 5 1024 = 32"
  by (simp add: arg_reduce_group_size_def sz_add_def sz_sub_def sz_mul_def)

lemma size_t_small: "size_t 0 = 0" "size_t 1 = 1" "size_t 2 = 2" "size_t 3 = 3" "size_t 5 = 5"
  by (simp_all add: size_t_def)

text \<open>
  C1, as stated, fails. An Arange with an empty output calls the allocator (for zero
  bytes) before it tests the size, and an ArgReduce with an empty output has no test at
  all: it calls the allocator, binds every kernel argument and issues a dispatch over an
  empty grid.
\<close>

theorem empty_output_counterexample:
  "Arange_eval_gpu (\<lambda>k. Some 1024) []
     \<lparr>shape = [0], dtype = float32, itemsize = 4, strides = [1],
      flags = \<lparr>contiguous = True, row_contiguous = True, col_contiguous = True\<rparr>,
      data_size = 0, data = None, offset = 0\<rparr>
     \<lparr>trace = [], next_buffer = 0\<rparr>
   = Inr (\<lparr>shape = [0], dtype = float32, itemsize = 4, strides = [1],
      flags = \<lparr>contiguous = True, row_contiguous = True, col_contiguous = True\<rparr>,
      data_size = 0, data = Some (Buffer 0), offset = 0\<rparr>,
      \<lparr>trace = [Malloc_or_wait 0], next_buffer = 1\<rparr>)
   \<and> array_size \<lparr>shape = [0], dtype = uint32, itemsize = 4, strides = [1],
      flags = \<lparr>contiguous = True, row_contiguous = True, col_contiguous = True\<rparr>,
      data_size = 0, data = None, offset = 0\<rparr> = 0
   \<and> map_sum fst (\<lambda>r. trace (snd r))
     (ArgReduce_eval_gpu (\<lambda>k. Some 1024) ArgMax 1
       [\<lparr>shape = [0, 5], dtype = float32, itemsize = 4, strides = [5, 1],
         flags = \<lparr>contiguous = True, row_contiguous = True, col_contiguous = True\<rparr>,
         data_size = 0, data = Some (Buffer 7), offset = 0\<rparr>]
       \<lparr>shape = [0], dtype = uint32, itemsize = 4, strides = [1],
        flags = \<lparr>contiguous = True, row_contiguous = True, col_contiguous = True\<rparr>,
        data_size = 0, data = None, offset = 0\<rparr>
       \<lparr>trace = [], next_buffer = 0\<rparr>)
    = Inr [Malloc_or_wait 0,
        Set_compute_pipeline_state (Kernel ''argmax_'' (Some float32)),
        Set_input_array \<lparr>shape = [0, 5], dtype = float32, itemsize = 4, strides = [5, 1],
         flags = \<lparr>contiguous = True, row_contiguous = True, col_contiguous = True\<rparr>,
         data_size = 0, data = Some (Buffer 7), offset = 0\<rparr> 0,
        Set_output_array \<lparr>shape = [0], dtype = uint32, itemsize = 4, strides = [1],
         flags = \<lparr>contiguous = True, row_contiguous = True, col_contiguous = True\<rparr>,
         data_size = 0, data = Some (Buffer 0), offset = 0\<rparr> 1,
        Set_bytes (Ints_arg [0]) 4 2, Set_bytes (Sizes_arg [5]) 8 3,
        Set_bytes (Sizes_arg [1]) 8 4, Set_bytes (Size_arg 1) 8 5,
        Set_bytes (Size_arg 1) 8 6, Set_bytes (Size_arg 5) 8 7,
        Dispatch_threads (0, 1, 1) (32, 1, 1)]"
  by (simp add: Arange_eval_gpu_def ArgReduce_eval_gpu_def malloc_or_wait_def set_data_def
      array_size_def nbytes_def size_t_small arg_reduce_group_size_5_1024 sz_mul_def
      erase_def emits_def emit_def Let_def)

text \<open>
  C1, amended. With an empty output, the four primitives that test for it behave as
  follows. Slice and SliceUpdate bind a null buffer, never call the allocator and leave
  the device log untouched. Arange and RandomBits (with at least one key) call the
  allocator once, for zero bytes, bind what it returns and stop: no kernel is looked up,
  nothing is bound to the encoder and nothing is dispatched.
\<close>

theorem empty_output_guards:
  assumes "array_size out = 0"
  shows "Slice_eval_gpu prepare_slice shared_buffer_slice [inp] out st
           = Inr (out\<lparr>data := Some Null_buffer, offset := 0\<rparr>, st)
       \<and> SliceUpdate_eval_gpu prepare_slice' [inp, upd] out st
           = Inr (out\<lparr>data := Some Null_buffer, offset := 0\<rparr>, st)
       \<and> Arange_eval_gpu d [] out st
           = Inr (out\<lparr>data := Some (Buffer (next_buffer st)), offset := 0\<rparr>,
                  st\<lparr>trace := trace st @ [Malloc_or_wait 0],
                     next_buffer := Suc (next_buffer st)\<rparr>)
       \<and> (array_size keys div 2 \<noteq> 0 \<longrightarrow> RandomBits_eval_gpu d [keys] out st
           = Inr (out\<lparr>data := Some (Buffer (next_buffer st)), offset := 0\<rparr>,
                  st\<lparr>trace := trace st @ [Malloc_or_wait 0],
                     next_buffer := Suc (next_buffer st)\<rparr>))"
proof -
  have sz: "array_size (set_data out b) = 0" for b
    using assms by (simp add: array_size_def set_data_def)
  have nb: "nbytes out = 0" using assms by (simp add: nbytes_def)
  show ?thesis
    using assms sz nb
    by (simp add: Slice_eval_gpu_def SliceUpdate_eval_gpu_def Arange_eval_gpu_def
        RandomBits_eval_gpu_def malloc_or_wait_def Let_def)
      (simp add: set_data_def)
qed

theorem empty_output_guards_witness:
  "array_size \<lparr>shape = [0, 3], dtype = uint32, itemsize = 4, strides = [3, 1],
      flags = \<lparr>contiguous = True, row_contiguous = True, col_contiguous = True\<rparr>,
      data_size = 0, data = None, offset = 0\<rparr> = 0
   \<and> array_size \<lparr>shape = [1, 2], dtype = uint32, itemsize = 4, strides = [2, 1],
      flags = \<lparr>contiguous = True, row_contiguous = True, col_contiguous = True\<rparr>,
      data_size = 2, data = Some (Buffer 4), offset = 0\<rparr> div 2 = 1
   \<and> RandomBits_eval_gpu (\<lambda>k. Some 1024)
       [\<lparr>shape = [1, 2], dtype = uint32, itemsize = 4, strides = [2, 1],
         flags = \<lparr>contiguous = True, row_contiguous = True, col_contiguous = True\<rparr>,
         data_size = 2, data = Some (Buffer 4), offset = 0\<rparr>]
       \<lparr>shape = [0, 3], dtype = uint32, itemsize = 4, strides = [3, 1],
        flags = \<lparr>contiguous = True, row_contiguous = True, col_contiguous = True\<rparr>,
        data_size = 0, data = None, offset = 0\<rparr>
       \<lparr>trace = [], next_buffer = 5\<rparr>
     = Inr (\<lparr>shape = [0, 3], dtype = uint32, itemsize = 4, strides = [3, 1],
        flags = \<lparr>contiguous = True, row_contiguous = True, col_contiguous = True\<rparr>,
        data_size = 0, data = Some (Buffer 5), offset = 0\<rparr>,
        \<lparr>trace = [Malloc_or_wait 0], next_buffer = 6\<rparr>)
   \<and> Slice_eval_gpu (\<lambda>a. (False, 0, [])) (\<lambda>a ss off b. b)
       [\<lparr>shape = [1, 2], dtype = uint32, itemsize = 4, strides = [2, 1],
         flags = \<lparr>contiguous = True, row_contiguous = True, col_contiguous = True\<rparr>,
         data_size = 2, data = Some (Buffer 4), offset = 0\<rparr>]
       \<lparr>shape = [0, 3], dtype = uint32, itemsize = 4, strides = [3, 1],
        flags = \<lparr>contiguous = True, row_contiguous = True, col_contiguous = True\<rparr>,
        data_size = 0, data = None, offset = 0\<rparr>
       \<lparr>trace = [], next_buffer = 5\<rparr>
     = Inr (\<lparr>shape = [0, 3], dtype = uint32, itemsize = 4, strides = [3, 1],
        flags = \<lparr>contiguous = True, row_contiguous = True, col_contiguous = True\<rparr>,
        data_size = 0, data = Some Null_buffer, offset = 0\<rparr>,
        \<lparr>trace = [], next_buffer = 5\<rparr>)"
proof -
  have a: "array_size \<lparr>shape = [0, 3], dtype = uint32, itemsize = 4, strides = [3, 1],
      flags = \<lparr>contiguous = True, row_contiguous = True, col_contiguous = True\<rparr>,
      data_size = 0, data = None, offset = 0\<rparr> = 0"
    by (simp add: array_size_def)
  have k: "array_size \<lparr>shape = [1, 2], dtype = uint32, itemsize = 4, strides = [2, 1],
      flags = \<lparr>contiguous = True, row_contiguous = True, col_contiguous = True\<rparr>,
      data_size = 2, data = Some (Buffer 4), offset = 0\<rparr> div 2 = 1"
    by (simp add: array_size_def)
  show ?thesis
    using a k
      empty_output_guards [OF a, of "\<lambda>a. (False, 0, [])" "\<lambda>a ss off b. b"
        "\<lparr>shape = [1, 2], dtype = uint32, itemsize = 4, strides = [2, 1],
         flags = \<lparr>contiguous = True, row_contiguous = True, col_contiguous = True\<rparr>,
         data_size = 2, data = Some (Buffer 4), offset = 0\<rparr>"
        "\<lparr>trace = [], next_buffer = 5\<rparr>" _ _ "\<lambda>k. Some 1024"
        "\<lparr>shape = [1, 2], dtype = uint32, itemsize = 4, strides = [2, 1],
         flags = \<lparr>contiguous = True, row_contiguous = True, col_contiguous = True\<rparr>,
         data_size = 2, data = Some (Buffer 4), offset = 0\<rparr>"]
    by simp
qed

subsection \<open>Full\<close>

text \<open>
  C4, as stated, fails. The test for the Scalar class reads \<^verbatim>\<open>data_size()\<close>, the number
  of elements in the backing storage, not the number of logical elements. A source of
  shape \<open>3 \<times> 4\<close> broadcast from one stored element has twelve logical elements and is
  not contiguous, so the stated policy selects General; the code selects Scalar.
\<close>

theorem Full_logical_size_counterexample:
  "array_size \<lparr>shape = [3, 4], dtype = float32, itemsize = 4, strides = [0, 0],
        flags = \<lparr>contiguous = False, row_contiguous = False, col_contiguous = False\<rparr>,
        data_size = 1, data = Some (Buffer 0), offset = 0\<rparr> = 12
   \<and> \<not> contiguous (flags \<lparr>shape = [3, 4], dtype = float32, itemsize = 4, strides = [0, 0],
        flags = \<lparr>contiguous = False, row_contiguous = False, col_contiguous = False\<rparr>,
        data_size = 1, data = Some (Buffer 0), offset = 0\<rparr>)
   \<and> Full_eval_gpu
       [\<lparr>shape = [3, 4], dtype = float32, itemsize = 4, strides = [0, 0],
         flags = \<lparr>contiguous = False, row_contiguous = False, col_contiguous = False\<rparr>,
         data_size = 1, data = Some (Buffer 0), offset = 0\<rparr>]
       \<lparr>shape = [3, 4], dtype = float32, itemsize = 4, strides = [4, 1],
        flags = \<lparr>contiguous = True, row_contiguous = True, col_contiguous = False\<rparr>,
        data_size = 12, data = None, offset = 0\<rparr>
       \<lparr>trace = [], next_buffer = 1\<rparr>
     = Inr (\<lparr>shape = [3, 4], dtype = float32, itemsize = 4, strides = [4, 1],
        flags = \<lparr>contiguous = True, row_contiguous = True, col_contiguous = False\<rparr>,
        data_size = 12, data = Some (Buffer 1), offset = 0\<rparr>,
        \<lparr>trace = [Malloc_or_wait 48,
          Copy_gpu
            \<lparr>shape = [3, 4], dtype = float32, itemsize = 4, strides = [0, 0],
             flags = \<lparr>contiguous = False, row_contiguous = False, col_contiguous = False\<rparr>,
             data_size = 1, data = Some (Buffer 0), offset = 0\<rparr>
            \<lparr>shape = [3, 4], dtype = float32, itemsize = 4, strides = [4, 1],
             flags = \<lparr>contiguous = True, row_contiguous = True, col_contiguous = False\<rparr>,
             data_size = 12, data = Some (Buffer 1), offset = 0\<rparr>
            Scalar],
         next_buffer = 2\<rparr>)"
  by (simp add: array_size_def nbytes_def Full_eval_gpu_def Full_ctype_def copy_gpu_def
      malloc_or_wait_def set_data_def emit_def Let_def)

text \<open>
  C4, amended. Full selects exactly one copy class from the source alone: Scalar when
  the source's \<^verbatim>\<open>data_size()\<close> is one, otherwise Vector when its contiguous flag is set,
  otherwise General; GeneralGeneral is never selected. The copy it requests is of that
  class.
\<close>

theorem Full_copy_type:
  "Full_eval_gpu (inp # rest) out st = Inr (copy_gpu inp out (Full_ctype inp) st)
   \<and> last (trace (snd (copy_gpu inp out (Full_ctype inp) st)))
       = Copy_gpu inp (fst (copy_gpu inp out (Full_ctype inp) st)) (Full_ctype inp)
   \<and> (Full_ctype inp = Scalar \<longleftrightarrow> data_size inp = 1)
   \<and> (Full_ctype inp = Vector \<longleftrightarrow> data_size inp \<noteq> 1 \<and> contiguous (flags inp))
   \<and> (Full_ctype inp = General \<longleftrightarrow> data_size inp \<noteq> 1 \<and> \<not> contiguous (flags inp))
   \<and> Full_ctype inp \<noteq> GeneralGeneral"
  by (simp add: Full_eval_gpu_def Full_ctype_def copy_gpu_def malloc_or_wait_def emit_def
      set_data_def Let_def)

subsection \<open>Unsupported configurations\<close>

lemma arange_switch_unsupported:
  "t = bool_dtype \<or> t = complex64 \<Longrightarrow>
   arange_switch t s = Inl (Runtime_error (if t = bool_dtype
      then ''[Arange::eval_gpu] Does not support bool''
      else ''[Arange::eval_gpu] Does not support complex64''))"
  by auto

text \<open>
  C5, as stated, fails. An Arange whose output is boolean and empty returns normally:
  the test for the empty output comes before the \<^verbatim>\<open>switch\<close> on the element type.
\<close>

theorem Arange_bool_empty_counterexample:
  "Arange_eval_gpu (\<lambda>k. Some 1024) []
     \<lparr>shape = [0], dtype = bool_dtype, itemsize = 1, strides = [1],
      flags = \<lparr>contiguous = True, row_contiguous = True, col_contiguous = True\<rparr>,
      data_size = 0, data = None, offset = 0\<rparr>
     \<lparr>trace = [], next_buffer = 0\<rparr>
   = Inr (\<lparr>shape = [0], dtype = bool_dtype, itemsize = 1, strides = [1],
      flags = \<lparr>contiguous = True, row_contiguous = True, col_contiguous = True\<rparr>,
      data_size = 0, data = Some (Buffer 0), offset = 0\<rparr>,
      \<lparr>trace = [Malloc_or_wait 0], next_buffer = 1\<rparr>)"
  by (simp add: Arange_eval_gpu_def malloc_or_wait_def set_data_def array_size_def nbytes_def)

text \<open>
  C5, amended. An Arange on a boolean or complex64 output that is not empty always ends
  in an error, and a Conjugate on an output that is not complex64 always ends in an error
  (the invalid-argument error when it has its one input), with the output and the device
  log untouched. Each is a single pass: nothing is retried.
\<close>

theorem unsupported_configurations_raise:
  "((dtype out = bool_dtype \<or> dtype out = complex64) \<and> array_size out \<noteq> 0 \<longrightarrow>
      (\<exists>e out' st'. Arange_eval_gpu d inputs out st = Inl (e, out', st')))
   \<and> (dtype out \<noteq> complex64 \<longrightarrow>
      Conjugate_eval_gpu inputs out st =
        Inl (if length inputs \<noteq> 1 then Assertion_failed
             else Invalid_argument ''[conjugate] conjugate must be called on complex input.'',
             out, st))"
proof (intro conjI impI)
  assume h: "(dtype out = bool_dtype \<or> dtype out = complex64) \<and> array_size out \<noteq> 0"
  then have sz: "array_size (set_data out (Buffer (next_buffer st))) \<noteq> 0"
    by (simp add: array_size_def set_data_def)
  from h have dt: "dtype (set_data out (Buffer (next_buffer st))) = bool_dtype
      \<or> dtype (set_data out (Buffer (next_buffer st))) = complex64"
    by (simp add: set_data_def)
  show "\<exists>e out' st'. Arange_eval_gpu d inputs out st = Inl (e, out', st')"
    using sz arange_switch_unsupported [OF dt]
    by (auto simp: Arange_eval_gpu_def malloc_or_wait_def Let_def split: option.splits)
next
  assume "dtype out \<noteq> complex64"
  then show "Conjugate_eval_gpu inputs out st =
        Inl (if length inputs \<noteq> 1 then Assertion_failed
             else Invalid_argument ''[conjugate] conjugate must be called on complex input.'',
             out, st)"
    by (simp add: Conjugate_eval_gpu_def)
qed

theorem unsupported_configurations_raise_witness:
  "array_size \<lparr>shape = [4], dtype = bool_dtype, itemsize = 1, strides = [1],
      flags = \<lparr>contiguous = True, row_contiguous = True, col_contiguous = True\<rparr>,
      data_size = 4, data = None, offset = 0\<rparr> = 4
   \<and> (\<exists>e out' st'. Arange_eval_gpu (\<lambda>k. Some 1024) []
       \<lparr>shape = [4], dtype = bool_dtype, itemsize = 1, strides = [1],
        flags = \<lparr>contiguous = True, row_contiguous = True, col_contiguous = True\<rparr>,
        data_size = 4, data = None, offset = 0\<rparr>
       \<lparr>trace = [], next_buffer = 0\<rparr> = Inl (e, out', st'))
   \<and> Conjugate_eval_gpu
       [\<lparr>shape = [4], dtype = float32, itemsize = 4, strides = [1],
         flags = \<lparr>contiguous = True, row_contiguous = True, col_contiguous = True\<rparr>,
         data_size = 4, data = Some (Buffer 0), offset = 0\<rparr>]
       \<lparr>shape = [4], dtype = bool_dtype, itemsize = 1, strides = [1],
        flags = \<lparr>contiguous = True, row_contiguous = True, col_contiguous = True\<rparr>,
        data_size = 4, data = None, offset = 0\<rparr>
       \<lparr>trace = [], next_buffer = 0\<rparr>
     = Inl (Invalid_argument ''[conjugate] conjugate must be called on complex input.'',
        \<lparr>shape = [4], dtype = bool_dtype, itemsize = 1, strides = [1],
         flags = \<lparr>contiguous = True, row_contiguous = True, col_contiguous = True\<rparr>,
         data_size = 4, data = None, offset = 0\<rparr>,
        \<lparr>trace = [], next_buffer = 0\<rparr>)"
proof -
  have a: "array_size \<lparr>shape = [4], dtype = bool_dtype, itemsize = 1, strides = [1],
      flags = \<lparr>contiguous = True, row_contiguous = True, col_contiguous = True\<rparr>,
      data_size = 4, data = None, offset = 0\<rparr> = 4"
    by (simp add: array_size_def)
  show ?thesis
    using a
      unsupported_configurations_raise [of
        "\<lparr>shape = [4], dtype = bool_dtype, itemsize = 1, strides = [1],
         flags = \<lparr>contiguous = True, row_contiguous = True, col_contiguous = True\<rparr>,
         data_size = 4, data = None, offset = 0\<rparr>"
        "\<lambda>k. Some 1024" "[]" "\<lparr>trace = [], next_buffer = 0\<rparr>"]
      unsupported_configurations_raise [of
        "\<lparr>shape = [4], dtype = bool_dtype, itemsize = 1, strides = [1],
         flags = \<lparr>contiguous = True, row_contiguous = True, col_contiguous = True\<rparr>,
         data_size = 4, data = None, offset = 0\<rparr>"
        "\<lambda>k. Some 1024"
        "[\<lparr>shape = [4], dtype = float32, itemsize = 4, strides = [1],
          flags = \<lparr>contiguous = True, row_contiguous = True, col_contiguous = True\<rparr>,
          data_size = 4, data = Some (Buffer 0), offset = 0\<rparr>]"
        "\<lparr>trace = [], next_buffer = 0\<rparr>"]
    by simp
qed

text \<open>
  C10, as stated, fails. On a device that has no arange kernel for the element type, the
  kernel lookup fails after the allocation: no pipeline state is set and the error is the
  lookup's, not the unsupported-type error.
\<close>

theorem Arange_no_kernel_counterexample:
  "array_size \<lparr>shape = [4], dtype = complex64, itemsize = 8, strides = [1],
      flags = \<lparr>contiguous = True, row_contiguous = True, col_contiguous = True\<rparr>,
      data_size = 4, data = None, offset = 0\<rparr> = 4
   \<and> Arange_eval_gpu (\<lambda>k. None) []
       \<lparr>shape = [4], dtype = complex64, itemsize = 8, strides = [1],
        flags = \<lparr>contiguous = True, row_contiguous = True, col_contiguous = True\<rparr>,
        data_size = 4, data = None, offset = 0\<rparr>
       \<lparr>trace = [], next_buffer = 0\<rparr>
     = Inl (Kernel_not_found,
        \<lparr>shape = [4], dtype = complex64, itemsize = 8, strides = [1],
         flags = \<lparr>contiguous = True, row_contiguous = True, col_contiguous = True\<rparr>,
         data_size = 4, data = Some (Buffer 0), offset = 0\<rparr>,
        \<lparr>trace = [Malloc_or_wait 32], next_buffer = 1\<rparr>)"
  by (simp add: Arange_eval_gpu_def malloc_or_wait_def set_data_def array_size_def nbytes_def)

text \<open>
  C10, amended. An Arange on a boolean or complex64 output that is not empty always fails
  after the allocator has been called and the new buffer has been bound to the output: the
  output carried by the error is bound to the fresh buffer, so an output that came in
  unbound has changed although the call failed. Where the kernel is registered, the
  pipeline state is set as well before the unsupported-type error is raised; where it is
  not, the lookup's error is raised instead, before any pipeline state is set.
\<close>

theorem Arange_error_not_atomic:
  assumes "dtype out = bool_dtype \<or> dtype out = complex64" and "array_size out \<noteq> 0"
  shows "Arange_eval_gpu d [] out st =
     (case d (Kernel ''arange'' (Some (dtype out))) of
        None \<Rightarrow>
          Inl (Kernel_not_found,
               out\<lparr>data := Some (Buffer (next_buffer st)), offset := 0\<rparr>,
               st\<lparr>trace := trace st @ [Malloc_or_wait (nbytes out)],
                  next_buffer := Suc (next_buffer st)\<rparr>)
      | Some max_threads \<Rightarrow>
          Inl (Runtime_error (if dtype out = bool_dtype
                 then ''[Arange::eval_gpu] Does not support bool''
                 else ''[Arange::eval_gpu] Does not support complex64''),
               out\<lparr>data := Some (Buffer (next_buffer st)), offset := 0\<rparr>,
               st\<lparr>trace := trace st @ [Malloc_or_wait (nbytes out),
                        Set_compute_pipeline_state (Kernel ''arange'' (Some (dtype out)))],
                  next_buffer := Suc (next_buffer st)\<rparr>))
     \<and> data (out\<lparr>data := Some (Buffer (next_buffer st)), offset := 0\<rparr>)
          = Some (Buffer (next_buffer st))
     \<and> (data out = None \<longrightarrow>
          out\<lparr>data := Some (Buffer (next_buffer st)), offset := 0\<rparr> \<noteq> out)"
proof -
  have sz: "array_size (set_data out (Buffer (next_buffer st))) \<noteq> 0"
    using assms(2) by (simp add: array_size_def set_data_def)
  have dt: "dtype (set_data out (Buffer (next_buffer st))) = dtype out"
    by (simp add: set_data_def)
  have bound: "data (out\<lparr>data := Some (Buffer (next_buffer st)), offset := 0\<rparr>)
      = Some (Buffer (next_buffer st))"
    by simp
  then have ne: "data out = None \<longrightarrow>
      out\<lparr>data := Some (Buffer (next_buffer st)), offset := 0\<rparr> \<noteq> out"
    by (metis option.distinct(1))
  have run: "Arange_eval_gpu d [] out st =
     (case d (Kernel ''arange'' (Some (dtype out))) of
        None \<Rightarrow>
          Inl (Kernel_not_found,
               out\<lparr>data := Some (Buffer (next_buffer st)), offset := 0\<rparr>,
               st\<lparr>trace := trace st @ [Malloc_or_wait (nbytes out)],
                  next_buffer := Suc (next_buffer st)\<rparr>)
      | Some max_threads \<Rightarrow>
          Inl (Runtime_error (if dtype out = bool_dtype
                 then ''[Arange::eval_gpu] Does not support bool''
                 else ''[Arange::eval_gpu] Does not support complex64''),
               out\<lparr>data := Some (Buffer (next_buffer st)), offset := 0\<rparr>,
               st\<lparr>trace := trace st @ [Malloc_or_wait (nbytes out),
                        Set_compute_pipeline_state (Kernel ''arange'' (Some (dtype out)))],
                  next_buffer := Suc (next_buffer st)\<rparr>))"
    using sz arange_switch_unsupported [OF assms(1)]
    by (simp add: Arange_eval_gpu_def malloc_or_wait_def Let_def dt emit_def
        split: option.split)
      (simp add: set_data_def)
  from run bound ne show ?thesis by (intro conjI)
qed

theorem Arange_error_not_atomic_witness:
  "array_size \<lparr>shape = [4], dtype = bool_dtype, itemsize = 1, strides = [1],
      flags = \<lparr>contiguous = True, row_contiguous = True, col_contiguous = True\<rparr>,
      data_size = 4, data = None, offset = 0\<rparr> = 4
   \<and> Arange_eval_gpu (\<lambda>k. Some 1024) []
       \<lparr>shape = [4], dtype = bool_dtype, itemsize = 1, strides = [1],
        flags = \<lparr>contiguous = True, row_contiguous = True, col_contiguous = True\<rparr>,
        data_size = 4, data = None, offset = 0\<rparr>
       \<lparr>trace = [], next_buffer = 0\<rparr>
     = Inl (Runtime_error ''[Arange::eval_gpu] Does not support bool'',
        \<lparr>shape = [4], dtype = bool_dtype, itemsize = 1, strides = [1],
         flags = \<lparr>contiguous = True, row_contiguous = True, col_contiguous = True\<rparr>,
         data_size = 4, data = Some (Buffer 0), offset = 0\<rparr>,
        \<lparr>trace = [Malloc_or_wait 4,
                  Set_compute_pipeline_state (Kernel ''arange'' (Some bool_dtype))],
         next_buffer = 1\<rparr>)
   \<and> Arange_eval_gpu (\<lambda>k. None) []
       \<lparr>shape = [4], dtype = bool_dtype, itemsize = 1, strides = [1],
        flags = \<lparr>contiguous = True, row_contiguous = True, col_contiguous = True\<rparr>,
        data_size = 4, data = None, offset = 0\<rparr>
       \<lparr>trace = [], next_buffer = 0\<rparr>
     = Inl (Kernel_not_found,
        \<lparr>shape = [4], dtype = bool_dtype, itemsize = 1, strides = [1],
         flags = \<lparr>contiguous = True, row_contiguous = True, col_contiguous = True\<rparr>,
         data_size = 4, data = Some (Buffer 0), offset = 0\<rparr>,
        \<lparr>trace = [Malloc_or_wait 4], next_buffer = 1\<rparr>)"
  using
    Arange_error_not_atomic [of
      "\<lparr>shape = [4], dtype = bool_dtype, itemsize = 1, strides = [1],
       flags = \<lparr>contiguous = True, row_contiguous = True, col_contiguous = True\<rparr>,
       data_size = 4, data = None, offset = 0\<rparr>"
      "\<lambda>k. Some 1024" "\<lparr>trace = [], next_buffer = 0\<rparr>"]
    Arange_error_not_atomic [of
      "\<lparr>shape = [4], dtype = bool_dtype, itemsize = 1, strides = [1],
       flags = \<lparr>contiguous = True, row_contiguous = True, col_contiguous = True\<rparr>,
       data_size = 4, data = None, offset = 0\<rparr>"
      "\<lambda>k. None" "\<lparr>trace = [], next_buffer = 0\<rparr>"]
  by (simp add: array_size_def nbytes_def)

subsection \<open>SliceUpdate\<close>

text \<open>
  C7. A SliceUpdate whose output is not empty and whose update is empty requests no copy
  and calls no allocator: the device log is returned as it came, and the output takes the
  base input's buffer, offset and layout.
\<close>

theorem SliceUpdate_empty_update_aliases:
  assumes "array_size out \<noteq> 0" and "array_size upd = 0"
  shows "SliceUpdate_eval_gpu prepare_slice [inp, upd] out st =
     Inr (out\<lparr>strides := strides inp, flags := flags inp, data_size := data_size inp,
              data := data inp, offset := offset inp\<rparr>, st)"
  using assms
  by (simp add: SliceUpdate_eval_gpu_def copy_shared_buffer_def copy_shared_buffer5_def)

theorem SliceUpdate_empty_update_aliases_witness:
  "array_size \<lparr>shape = [2, 3], dtype = float32, itemsize = 4, strides = [3, 1],
      flags = \<lparr>contiguous = True, row_contiguous = True, col_contiguous = False\<rparr>,
      data_size = 6, data = None, offset = 0\<rparr> = 6
   \<and> array_size \<lparr>shape = [0, 3], dtype = float32, itemsize = 4, strides = [3, 1],
      flags = \<lparr>contiguous = True, row_contiguous = True, col_contiguous = True\<rparr>,
      data_size = 0, data = Some Null_buffer, offset = 0\<rparr> = 0
   \<and> SliceUpdate_eval_gpu (\<lambda>a. (0, [3, 1]))
       [\<lparr>shape = [2, 3], dtype = float32, itemsize = 4, strides = [1, 2],
         flags = \<lparr>contiguous = True, row_contiguous = False, col_contiguous = True\<rparr>,
         data_size = 6, data = Some (Buffer 2), offset = 0\<rparr>,
        \<lparr>shape = [0, 3], dtype = float32, itemsize = 4, strides = [3, 1],
         flags = \<lparr>contiguous = True, row_contiguous = True, col_contiguous = True\<rparr>,
         data_size = 0, data = Some Null_buffer, offset = 0\<rparr>]
       \<lparr>shape = [2, 3], dtype = float32, itemsize = 4, strides = [3, 1],
        flags = \<lparr>contiguous = True, row_contiguous = True, col_contiguous = False\<rparr>,
        data_size = 6, data = None, offset = 0\<rparr>
       \<lparr>trace = [], next_buffer = 3\<rparr>
     = Inr (\<lparr>shape = [2, 3], dtype = float32, itemsize = 4, strides = [1, 2],
        flags = \<lparr>contiguous = True, row_contiguous = False, col_contiguous = True\<rparr>,
        data_size = 6, data = Some (Buffer 2), offset = 0\<rparr>,
        \<lparr>trace = [], next_buffer = 3\<rparr>)"
proof -
  have a: "array_size \<lparr>shape = [2, 3], dtype = float32, itemsize = 4, strides = [3, 1],
      flags = \<lparr>contiguous = True, row_contiguous = True, col_contiguous = False\<rparr>,
      data_size = 6, data = None, offset = 0\<rparr> \<noteq> 0"
    by (simp add: array_size_def)
  have b: "array_size \<lparr>shape = [0, 3], dtype = float32, itemsize = 4, strides = [3, 1],
      flags = \<lparr>contiguous = True, row_contiguous = True, col_contiguous = True\<rparr>,
      data_size = 0, data = Some Null_buffer, offset = 0\<rparr> = 0"
    by (simp add: array_size_def)
  show ?thesis
    using SliceUpdate_empty_update_aliases [OF a b, of "\<lambda>a. (0, [3, 1])"
        "\<lparr>shape = [2, 3], dtype = float32, itemsize = 4, strides = [1, 2],
         flags = \<lparr>contiguous = True, row_contiguous = False, col_contiguous = True\<rparr>,
         data_size = 6, data = Some (Buffer 2), offset = 0\<rparr>"
        "\<lparr>trace = [], next_buffer = 3\<rparr>"]
    by (simp add: array_size_def)
qed

subsection \<open>RandomBits\<close>

text \<open>
  C3, as stated, fails. A RandomBits evaluation with three keys and an empty output
  returns at the test for the empty output: it computes no block count and issues no
  dispatch, where the stated rule gives the grid \<open>(3, 0, 1)\<close>.
\<close>

theorem RandomBits_empty_counterexample:
  "array_size \<lparr>shape = [3, 2], dtype = uint32, itemsize = 4, strides = [2, 1],
      flags = \<lparr>contiguous = True, row_contiguous = True, col_contiguous = False\<rparr>,
      data_size = 6, data = Some (Buffer 0), offset = 0\<rparr> div 2 = 3
   \<and> array_size \<lparr>shape = [3, 0], dtype = uint8, itemsize = 1, strides = [0, 1],
        flags = \<lparr>contiguous = True, row_contiguous = True, col_contiguous = True\<rparr>,
        data_size = 0, data = None, offset = 0\<rparr> = 0
   \<and> RandomBits_eval_gpu (\<lambda>k. Some 1024)
       [\<lparr>shape = [3, 2], dtype = uint32, itemsize = 4, strides = [2, 1],
         flags = \<lparr>contiguous = True, row_contiguous = True, col_contiguous = False\<rparr>,
         data_size = 6, data = Some (Buffer 0), offset = 0\<rparr>]
       \<lparr>shape = [3, 0], dtype = uint8, itemsize = 1, strides = [0, 1],
        flags = \<lparr>contiguous = True, row_contiguous = True, col_contiguous = True\<rparr>,
        data_size = 0, data = None, offset = 0\<rparr>
       \<lparr>trace = [], next_buffer = 1\<rparr>
     = Inr (\<lparr>shape = [3, 0], dtype = uint8, itemsize = 1, strides = [0, 1],
        flags = \<lparr>contiguous = True, row_contiguous = True, col_contiguous = True\<rparr>,
        data_size = 0, data = Some (Buffer 1), offset = 0\<rparr>,
        \<lparr>trace = [Malloc_or_wait 0], next_buffer = 2\<rparr>)
   \<and> dispatches \<lparr>trace = [Malloc_or_wait 0], next_buffer = 2\<rparr> = []"
  by (simp add: RandomBits_eval_gpu_def malloc_or_wait_def set_data_def array_size_def
      nbytes_def sz_mul_def dispatches_def is_dispatch_def Let_def)

text \<open>
  C3, amended. A RandomBits evaluation with \<open>num_keys\<close> keys (\<open>num_keys > 0\<close>), a non-empty
  output and its kernel registered takes
  \<open>bytes_per_key = itemsize * (out.size() / num_keys)\<close>, lets \<open>out_per_key\<close> be
  \<open>bytes_per_key / 4\<close> rounded up, \<open>half_size = out_per_key / 2\<close> and
  \<open>odd = out_per_key mod 2\<close>, and issues exactly one dispatch, over the grid
  \<open>(num_keys, half_size + odd, 1)\<close>. The byte count is assumed to leave room for the
  rounding in a 64-bit \<^verbatim>\<open>size_t\<close>.
\<close>

theorem RandomBits_grid:
  assumes keys: "array_size keys div 2 \<noteq> 0"
    and nonempty: "array_size out \<noteq> 0"
    and kernel: "d (Kernel (if row_contiguous (flags keys) then ''rbitsc'' else ''rbits'') None)
                  = Some m"
    and range: "itemsize out * (array_size out div (array_size keys div 2)) + 4 < 2 ^ 64"
  shows "let num_keys = array_size keys div 2;
             bytes_per_key = itemsize out * (array_size out div num_keys);
             out_per_key = (bytes_per_key + 3) div 4;
             half_size = out_per_key div 2;
             odd = out_per_key mod 2
         in bytes_per_key \<le> 4 * out_per_key \<and> 4 * out_per_key < bytes_per_key + 4
            \<and> (\<exists>out' st'. RandomBits_eval_gpu d [keys] out st = Inr (out', st')
                 \<and> dispatches st'
                     = dispatches st @ [Dispatch_threads (num_keys, half_size + odd, 1) (m, 1, 1)])"
proof -
  define num_keys where "num_keys = array_size keys div 2"
  define bytes_per_key where "bytes_per_key = itemsize out * (array_size out div num_keys)"
  define out_per_key where "out_per_key = (bytes_per_key + 3) div 4"
  have b: "bytes_per_key + 4 < 2 ^ 64"
    using range by (simp add: bytes_per_key_def num_keys_def)
  have mul: "sz_mul (itemsize out) (array_size out div num_keys) = bytes_per_key"
    using b by (simp add: sz_mul_small bytes_per_key_def)
  have opk: "sz_sub (sz_add bytes_per_key 4) (Suc 0) div 4 = out_per_key"
    using b sz_round_up [of bytes_per_key 4] by (simp add: out_per_key_def)
  have small: "out_per_key div 2 + 1 < 2 ^ 64"
    using b by (simp add: out_per_key_def)
  have half1: "sz_add (out_per_key div 2) (Suc 0) = Suc (out_per_key div 2)"
    using small by (simp add: sz_add_def)
  have half0: "sz_add (out_per_key div 2) 0 = out_per_key div 2"
    using small by (simp add: sz_add_def)
  have sz: "array_size (set_data out buf) \<noteq> 0" for buf
    using nonempty by (simp add: array_size_def set_data_def)
  have ceil: "bytes_per_key \<le> 4 * out_per_key \<and> 4 * out_per_key < bytes_per_key + 4"
    unfolding out_per_key_def by arith
  have run: "\<exists>out' st'. RandomBits_eval_gpu d [keys] out st = Inr (out', st')
      \<and> dispatches st' = dispatches st
           @ [Dispatch_threads (num_keys, out_per_key div 2 + out_per_key mod 2, 1) (m, 1, 1)]"
    using keys kernel sz
    by (simp add: RandomBits_eval_gpu_def Let_def split_beta num_keys_def [symmetric] mul opk
        half0 half1 dispatches_emit dispatches_emits dispatches_malloc is_dispatch_def)
  show ?thesis
    using ceil run
    by (simp add: Let_def num_keys_def bytes_per_key_def out_per_key_def)
qed

theorem RandomBits_grid_witness:
  "array_size \<lparr>shape = [3, 2], dtype = uint32, itemsize = 4, strides = [2, 1],
      flags = \<lparr>contiguous = True, row_contiguous = True, col_contiguous = False\<rparr>,
      data_size = 6, data = Some (Buffer 0), offset = 0\<rparr> div 2 = 3
   \<and> itemsize \<lparr>shape = [3, 8], dtype = uint8, itemsize = 1, strides = [8, 1],
        flags = \<lparr>contiguous = True, row_contiguous = True, col_contiguous = False\<rparr>,
        data_size = 24, data = None, offset = 0\<rparr>
      * (array_size \<lparr>shape = [3, 8], dtype = uint8, itemsize = 1, strides = [8, 1],
        flags = \<lparr>contiguous = True, row_contiguous = True, col_contiguous = False\<rparr>,
        data_size = 24, data = None, offset = 0\<rparr> div 3) = 8
   \<and> (\<exists>out' st'. RandomBits_eval_gpu (\<lambda>k. Some 1024)
         [\<lparr>shape = [3, 2], dtype = uint32, itemsize = 4, strides = [2, 1],
           flags = \<lparr>contiguous = True, row_contiguous = True, col_contiguous = False\<rparr>,
           data_size = 6, data = Some (Buffer 0), offset = 0\<rparr>]
         \<lparr>shape = [3, 8], dtype = uint8, itemsize = 1, strides = [8, 1],
          flags = \<lparr>contiguous = True, row_contiguous = True, col_contiguous = False\<rparr>,
          data_size = 24, data = None, offset = 0\<rparr>
         \<lparr>trace = [], next_buffer = 1\<rparr> = Inr (out', st')
       \<and> dispatches st' = [Dispatch_threads (3, 1, 1) (1024, 1, 1)])"
proof -
  show ?thesis
    using RandomBits_grid [of
        "\<lparr>shape = [3, 2], dtype = uint32, itemsize = 4, strides = [2, 1],
          flags = \<lparr>contiguous = True, row_contiguous = True, col_contiguous = False\<rparr>,
          data_size = 6, data = Some (Buffer 0), offset = 0\<rparr>"
        "\<lparr>shape = [3, 8], dtype = uint8, itemsize = 1, strides = [8, 1],
          flags = \<lparr>contiguous = True, row_contiguous = True, col_contiguous = False\<rparr>,
          data_size = 24, data = None, offset = 0\<rparr>"
        "\<lambda>k. Some 1024" 1024 "\<lparr>trace = [], next_buffer = 1\<rparr>"]
    by (simp add: array_size_def dispatches_def Let_def)
qed

subsection \<open>ArgReduce\<close>








subsection \<open>Pad\<close>

lemma size_t_negative:
  assumes "- (2 ^ 31) \<le> a" and "a < 0"
  shows "size_t a = nat (2 ^ 64 + a)"
proof -
  have "a mod 2 ^ 64 = (a + 2 ^ 64) mod 2 ^ 64" by simp
  also have "\<dots> = a + 2 ^ 64"
    using assms by (intro mod_pos_pos_trivial) simp_all
  finally show ?thesis by (simp add: size_t_def add.commute)
qed

lemma spec_pad_axis_resolved:
  assumes "- (2 ^ 31) \<le> a" and "a < 2 ^ 31" and "a < 0 \<longrightarrow> 0 \<le> int (ndim out) + a"
    and "spec_pad_axis out a < 2 ^ 64"
  shows "(if a < 0 then sz_add (ndim out) (size_t a) else size_t a) = spec_pad_axis out a"
proof (cases "a < 0")
  case True
  have s: "size_t a = nat (2 ^ 64 + a)"
    using assms(1) True by (rule size_t_negative)
  have "int (ndim out + nat (2 ^ 64 + a)) = int (2 ^ 64 + spec_pad_axis out a)"
    using True assms(1,3) by (simp add: spec_pad_axis_def)
  then have "ndim out + nat (2 ^ 64 + a) = 2 ^ 64 + spec_pad_axis out a"
    by (simp only: int_int_eq)
  then have "sz_add (ndim out) (size_t a) = spec_pad_axis out a"
    using assms(4) by (simp add: sz_add_def s)
  then show ?thesis using True by simp
next
  case False
  then show ?thesis using assms by (simp add: size_t_nat spec_pad_axis_def)
qed

lemma spec_pad_offset_Cons:
  "spec_pad_offset out (a # axes) (l # lows)
     = nat l * (strides out ! spec_pad_axis out a) + spec_pad_offset out axes lows"
  by (simp add: spec_pad_offset_def)

lemma pad_offset_sum:
  assumes "length axes = length lows"
    and "\<forall>a\<in>set axes. - (2 ^ 31) \<le> a \<and> a < 2 ^ 31 \<and> (a < 0 \<longrightarrow> 0 \<le> int (ndim out) + a)
           \<and> spec_pad_axis out a < length (strides out)"
    and "\<forall>l\<in>set lows. 0 \<le> l \<and> l < 2 ^ 31"
    and "length (strides out) < 2 ^ 64"
    and "acc + spec_pad_offset out axes lows < 2 ^ 64"
  shows "pad_offset out axes lows acc = Inr (acc + spec_pad_offset out axes lows)"
  using assms
proof (induction axes lows arbitrary: acc rule: list_induct2)
  case Nil
  then show ?case by (simp add: spec_pad_offset_def)
next
  case (Cons a axes l lows)
  let ?k = "spec_pad_axis out a"
  let ?t = "nat l * (strides out ! ?k)"
  have a: "- (2 ^ 31) \<le> a" "a < 2 ^ 31" "a < 0 \<longrightarrow> 0 \<le> int (ndim out) + a"
      "?k < length (strides out)"
    using Cons.prems(1) by simp_all
  have k64: "?k < 2 ^ 64" using a(4) Cons.prems(3) by (rule less_trans)
  have ax: "(if a < 0 then sz_add (ndim out) (size_t a) else size_t a) = ?k"
    using a(1,2,3) k64 by (rule spec_pad_axis_resolved)
  have l: "size_t l = nat l" using Cons.prems(2) by (simp add: size_t_nat)
  have total: "acc + (?t + spec_pad_offset out axes lows) < 2 ^ 64"
    using Cons.prems(4) by (simp add: spec_pad_offset_Cons)
  then have t64: "strides out ! ?k * nat l < 2 ^ 64" by (simp add: mult.commute)
  have acc64: "acc + strides out ! ?k * nat l < 2 ^ 64"
    using total by (simp add: mult.commute)
  have step: "sz_add acc (sz_mul (strides out ! ?k) (size_t l)) = acc + ?t"
    using t64 acc64 by (simp add: l sz_mul_small sz_add_small mult.commute)
  have "pad_offset out axes lows (acc + ?t) = Inr (acc + ?t + spec_pad_offset out axes lows)"
    using Cons.prems total by (intro Cons.IH) (simp_all add: add.assoc)
  then show ?case
    using a(4) by (simp add: ax step Let_def spec_pad_offset_Cons add.assoc)
qed

lemma pad_offset_cong:
  assumes "strides a = strides b" and "ndim a = ndim b"
  shows "pad_offset a axes lows acc = pad_offset b axes lows acc"
proof (induction axes arbitrary: lows acc)
  case Nil
  show ?case by simp
next
  case (Cons x xs)
  show ?case
  proof (cases lows)
    case Nil
    then show ?thesis by simp
  next
    case (Cons l ls)
    then show ?thesis using assms by (simp add: Let_def Cons.IH)
  qed
qed


lemma copy_gpu_out:
  "fst (copy_gpu src dst ctype st)
     = (if data dst = None then dst\<lparr>data := Some (Buffer (next_buffer st)), offset := 0\<rparr>
        else dst)"
  by (simp add: copy_gpu_def malloc_or_wait_def set_data_def Let_def)

lemma copy_gpu_trace:
  "trace (snd (copy_gpu src dst ctype st))
     = trace st @ (if data dst = None then [Malloc_or_wait (nbytes dst)] else [])
         @ [Copy_gpu src (fst (copy_gpu src dst ctype st)) ctype]"
  by (simp add: copy_gpu_def malloc_or_wait_def set_data_def emit_def Let_def)

text \<open>
  C6. A Pad with its two inputs (the pad value a scalar of the common element type)
  first requests a Scalar copy of the pad value into the whole output, allocating the
  output if it is unbound. The interior offset is the sum over the given axes of the low
  padding times the output's stride along the axis, a negative axis \<open>ax\<close> read as
  \<open>ndim + ax\<close>. A slice with the input's shape, on the output's buffer at that offset
  and with the output's strides and flags, is then the destination of a GeneralGeneral
  copy of the input. Axes and paddings are 32-bit values, the axes lie within the rank,
  the paddings are not negative and the offset fits a \<^verbatim>\<open>size_t\<close>.
\<close>

theorem Pad_fill_then_interior:
  assumes val: "array_size val = 1"
    and dt: "dtype val = dtype inp" "dtype inp = dtype out"
    and len: "length axes = length low_pad_size"
    and axes: "\<forall>a\<in>set axes. - (2 ^ 31) \<le> a \<and> a < 2 ^ 31
                 \<and> (a < 0 \<longrightarrow> 0 \<le> int (ndim out) + a)
                 \<and> spec_pad_axis out a < length (strides out)"
    and lows: "\<forall>l\<in>set low_pad_size. 0 \<le> l \<and> l < 2 ^ 31"
    and rank: "length (strides out) < 2 ^ 64"
    and range: "spec_pad_offset out axes low_pad_size < 2 ^ 64"
  shows "let (out1, st1) = copy_gpu val out Scalar st;
             out_slice = \<lparr>shape = shape inp, dtype = dtype out, itemsize = itemsize out,
                          strides = strides out, flags = flags out,
                          data_size = array_size inp, data = data out1,
                          offset = offset out1 + spec_pad_offset out axes low_pad_size\<rparr>
         in trace st1 = trace st @ (if data out = None then [Malloc_or_wait (nbytes out)] else [])
                          @ [Copy_gpu val out1 Scalar]
            \<and> data out1 \<noteq> None
            \<and> Pad_eval_gpu axes low_pad_size [inp, val] out st
                = Inr (out1, st1\<lparr>trace := trace st1
                                    @ [Copy_gpu_inplace inp out_slice GeneralGeneral]\<rparr>)"
proof -
  obtain out1 st1 where c: "copy_gpu val out Scalar st = (out1, st1)"
    by (cases "copy_gpu val out Scalar st")
  have o1: "out1 = (if data out = None
                    then out\<lparr>data := Some (Buffer (next_buffer st)), offset := 0\<rparr> else out)"
    using copy_gpu_out [of val out Scalar st] c by simp
  have tr: "trace st1 = trace st @ (if data out = None then [Malloc_or_wait (nbytes out)] else [])
                          @ [Copy_gpu val out1 Scalar]"
    using copy_gpu_trace [of val out Scalar st] c by simp
  have same: "strides out1 = strides out" "ndim out1 = ndim out" "flags out1 = flags out"
      "dtype out1 = dtype out" "itemsize out1 = itemsize out"
    by (simp_all add: o1 ndim_def)
  have bound: "data out1 \<noteq> None" by (simp add: o1)
  have "pad_offset out axes low_pad_size 0 = Inr (0 + spec_pad_offset out axes low_pad_size)"
    using len axes lows rank range by (intro pad_offset_sum) simp_all
  then have off: "pad_offset out1 axes low_pad_size 0
                    = Inr (spec_pad_offset out axes low_pad_size)"
    using pad_offset_cong [OF same(1,2)] by simp
  have run: "Pad_eval_gpu axes low_pad_size [inp, val] out st
      = Inr (out1, st1\<lparr>trace := trace st1 @ [Copy_gpu_inplace inp
           \<lparr>shape = shape inp, dtype = dtype out, itemsize = itemsize out,
            strides = strides out, flags = flags out,
            data_size = array_size inp, data = data out1,
            offset = offset out1 + spec_pad_offset out axes low_pad_size\<rparr> GeneralGeneral]\<rparr>)"
    using val dt
    by (simp add: Pad_eval_gpu_def c off same Let_def copy_gpu_inplace_def emit_def
        copy_shared_buffer5_def new_array_def array_size_def)
  show ?thesis
    using tr bound run by (simp add: c Let_def)
qed

theorem Pad_fill_then_interior_witness:
  "spec_pad_offset \<lparr>shape = [4, 5], dtype = float32, itemsize = 4, strides = [5, 1],
        flags = \<lparr>contiguous = True, row_contiguous = True, col_contiguous = False\<rparr>,
        data_size = 20, data = None, offset = 0\<rparr> [0, - 1] [1, 1] = 6
   \<and> Pad_eval_gpu [0, - 1] [1, 1]
       [\<lparr>shape = [2, 3], dtype = float32, itemsize = 4, strides = [3, 1],
         flags = \<lparr>contiguous = True, row_contiguous = True, col_contiguous = False\<rparr>,
         data_size = 6, data = Some (Buffer 0), offset = 0\<rparr>,
        \<lparr>shape = [], dtype = float32, itemsize = 4, strides = [],
         flags = \<lparr>contiguous = True, row_contiguous = True, col_contiguous = True\<rparr>,
         data_size = 1, data = Some (Buffer 1), offset = 0\<rparr>]
       \<lparr>shape = [4, 5], dtype = float32, itemsize = 4, strides = [5, 1],
        flags = \<lparr>contiguous = True, row_contiguous = True, col_contiguous = False\<rparr>,
        data_size = 20, data = None, offset = 0\<rparr>
       \<lparr>trace = [], next_buffer = 2\<rparr>
     = Inr (\<lparr>shape = [4, 5], dtype = float32, itemsize = 4, strides = [5, 1],
        flags = \<lparr>contiguous = True, row_contiguous = True, col_contiguous = False\<rparr>,
        data_size = 20, data = Some (Buffer 2), offset = 0\<rparr>,
        \<lparr>trace = [Malloc_or_wait 80,
           Copy_gpu
             \<lparr>shape = [], dtype = float32, itemsize = 4, strides = [],
              flags = \<lparr>contiguous = True, row_contiguous = True, col_contiguous = True\<rparr>,
              data_size = 1, data = Some (Buffer 1), offset = 0\<rparr>
             \<lparr>shape = [4, 5], dtype = float32, itemsize = 4, strides = [5, 1],
              flags = \<lparr>contiguous = True, row_contiguous = True, col_contiguous = False\<rparr>,
              data_size = 20, data = Some (Buffer 2), offset = 0\<rparr>
             Scalar,
           Copy_gpu_inplace
             \<lparr>shape = [2, 3], dtype = float32, itemsize = 4, strides = [3, 1],
              flags = \<lparr>contiguous = True, row_contiguous = True, col_contiguous = False\<rparr>,
              data_size = 6, data = Some (Buffer 0), offset = 0\<rparr>
             \<lparr>shape = [2, 3], dtype = float32, itemsize = 4, strides = [5, 1],
              flags = \<lparr>contiguous = True, row_contiguous = True, col_contiguous = False\<rparr>,
              data_size = 6, data = Some (Buffer 2), offset = 6\<rparr>
             GeneralGeneral],
         next_buffer = 3\<rparr>)"
proof -
  have off: "spec_pad_offset \<lparr>shape = [4, 5], dtype = float32, itemsize = 4, strides = [5, 1],
        flags = \<lparr>contiguous = True, row_contiguous = True, col_contiguous = False\<rparr>,
        data_size = 20, data = None, offset = 0\<rparr> [0, - 1] [1, 1] = 6"
    by (simp add: spec_pad_offset_def spec_pad_axis_def ndim_def)
  show ?thesis
    using off Pad_fill_then_interior [of
        "\<lparr>shape = [], dtype = float32, itemsize = 4, strides = [],
         flags = \<lparr>contiguous = True, row_contiguous = True, col_contiguous = True\<rparr>,
         data_size = 1, data = Some (Buffer 1), offset = 0\<rparr>"
        "\<lparr>shape = [2, 3], dtype = float32, itemsize = 4, strides = [3, 1],
         flags = \<lparr>contiguous = True, row_contiguous = True, col_contiguous = False\<rparr>,
         data_size = 6, data = Some (Buffer 0), offset = 0\<rparr>"
        "\<lparr>shape = [4, 5], dtype = float32, itemsize = 4, strides = [5, 1],
        flags = \<lparr>contiguous = True, row_contiguous = True, col_contiguous = False\<rparr>,
        data_size = 20, data = None, offset = 0\<rparr>"
        "[0, - 1]" "[1, 1]" "\<lparr>trace = [], next_buffer = 2\<rparr>"]
    by (simp add: array_size_def nbytes_def spec_pad_axis_def ndim_def copy_gpu_def
        malloc_or_wait_def set_data_def emit_def Let_def)
qed

subsection \<open>Row-major views that do not overlap\<close>

text \<open>
  Two boxes inside a row-major tensor that occupy disjoint ranges along one axis address
  disjoint buffer positions. The proof follows the mixed-radix reading of a row-major
  offset: the outermost index is the quotient by the size of the inner block.
\<close>

lemma mixed_radix_unique:
  fixes a b p i j :: nat
  assumes "a < p" and "b < p" and "i * p + a = j * p + b"
  shows "i = j \<and> a = b"
proof -
  have "(i * p + a) div p = i" using assms(1) by simp
  moreover have "(j * p + b) div p = j" using assms(2) by simp
  ultimately have "i = j" using assms(3) by simp
  then show ?thesis using assms(3) by simp
qed

lemma set_elem_offsets_Cons:
  "set (elem_offsets (n # ns) (s # ss)) = {i * s + r | i r. i < n \<and> r \<in> set (elem_offsets ns ss)}"
  by auto blast

lemma shifted_box_range:
  "k < length S \<Longrightarrow> P + n \<le> S ! k \<Longrightarrow> x \<in> set (elem_offsets (S[k := n]) (row_major S))
   \<Longrightarrow> row_major S ! k * P + x < prod_list S"
proof (induction S arbitrary: k x P n)
  case Nil
  then show ?case by simp
next
  case (Cons s ss)
  show ?case
  proof (cases k)
    case 0
    with Cons.prems obtain i r where x: "x = i * prod_list ss + r" "i < n"
        "r \<in> set (elem_offsets ss (row_major ss))"
      by (auto simp: set_elem_offsets_Cons)
    have r: "r < prod_list ss"
    proof (cases ss)
      case Nil
      then show ?thesis using x(3) by simp
    next
      case (Cons t ts)
      then have "0 < length ss" "0 + ss ! 0 \<le> ss ! 0" by simp_all
      moreover have "r \<in> set (elem_offsets (ss[0 := ss ! 0]) (row_major ss))"
        using x(3) by simp
      ultimately have "row_major ss ! 0 * 0 + r < prod_list ss"
        by (rule Cons.IH)
      then show ?thesis by simp
    qed
    have "P + i + 1 \<le> s" using x(2) Cons.prems(2) 0 by simp
    then have "(P + i + 1) * prod_list ss \<le> s * prod_list ss" by (rule mult_le_mono1)
    moreover have "(P + i) * prod_list ss + r < (P + i + 1) * prod_list ss"
      using r by simp
    ultimately have "(P + i) * prod_list ss + r < s * prod_list ss" by linarith
    then show ?thesis using 0 x(1) by (simp add: algebra_simps)
  next
    case (Suc k')
    with Cons.prems obtain i r where x: "x = i * prod_list ss + r" "i < s"
        "r \<in> set (elem_offsets (ss[k' := n]) (row_major ss))"
      by (auto simp: set_elem_offsets_Cons)
    have "k' < length ss" "P + n \<le> ss ! k'" using Cons.prems Suc by simp_all
    then have inner: "row_major ss ! k' * P + r < prod_list ss"
      using x(3) by (rule Cons.IH)
    have "i + 1 \<le> s" using x(2) by simp
    then have "(i + 1) * prod_list ss \<le> s * prod_list ss" by (rule mult_le_mono1)
    moreover have "i * prod_list ss + (row_major ss ! k' * P + r) < (i + 1) * prod_list ss"
      using inner by simp
    ultimately have "i * prod_list ss + (row_major ss ! k' * P + r) < s * prod_list ss"
      by linarith
    then show ?thesis using Suc x(1) by (simp add: algebra_simps)
  qed
qed

lemma box_range:
  assumes "x \<in> set (elem_offsets S (row_major S))"
  shows "x < prod_list S"
proof (cases S)
  case Nil
  then show ?thesis using assms by simp
next
  case (Cons t ts)
  then have "0 < length S" "0 + S ! 0 \<le> S ! 0" by simp_all
  moreover have "x \<in> set (elem_offsets (S[0 := S ! 0]) (row_major S))"
    using assms by simp
  ultimately have "row_major S ! 0 * 0 + x < prod_list S"
    by (rule shifted_box_range)
  then show ?thesis by simp
qed

lemma shifted_boxes_disjoint:
  "k < length S \<Longrightarrow> P + n \<le> Q \<Longrightarrow> Q + m \<le> S ! k
   \<Longrightarrow> x \<in> set (elem_offsets (S[k := n]) (row_major S))
   \<Longrightarrow> y \<in> set (elem_offsets (S[k := m]) (row_major S))
   \<Longrightarrow> row_major S ! k * P + x \<noteq> row_major S ! k * Q + y"
proof (induction S arbitrary: k x y)
  case Nil
  then show ?case by simp
next
  case (Cons s ss)
  show ?case
  proof (cases k)
    case 0
    from Cons.prems(4) 0 obtain i r where x: "x = i * prod_list ss + r" "i < n"
        "r \<in> set (elem_offsets ss (row_major ss))"
      by (auto simp: set_elem_offsets_Cons)
    from Cons.prems(5) 0 obtain j r' where y: "y = j * prod_list ss + r'" "j < m"
        "r' \<in> set (elem_offsets ss (row_major ss))"
      by (auto simp: set_elem_offsets_Cons)
    have r: "r < prod_list ss" "r' < prod_list ss"
      using x(3) y(3) by (simp_all add: box_range)
    show ?thesis
    proof
      assume "row_major (s # ss) ! k * P + x = row_major (s # ss) ! k * Q + y"
      then have "(P + i) * prod_list ss + r = (Q + j) * prod_list ss + r'"
        using 0 x(1) y(1) by (simp add: algebra_simps)
      with r have "P + i = Q + j \<and> r = r'" by (intro mixed_radix_unique)
      then show False using x(2) Cons.prems(2) by simp
    qed
  next
    case (Suc k')
    from Cons.prems(4) Suc obtain i r where x: "x = i * prod_list ss + r" "i < s"
        "r \<in> set (elem_offsets (ss[k' := n]) (row_major ss))"
      by (auto simp: set_elem_offsets_Cons)
    from Cons.prems(5) Suc obtain j r' where y: "y = j * prod_list ss + r'" "j < s"
        "r' \<in> set (elem_offsets (ss[k' := m]) (row_major ss))"
      by (auto simp: set_elem_offsets_Cons)
    have k': "k' < length ss" and fit: "Q + m \<le> ss ! k'" "P + n \<le> ss ! k'"
      using Cons.prems(1,2,3) Suc by simp_all
    have a: "row_major ss ! k' * P + r < prod_list ss"
      using k' fit(2) x(3) by (rule shifted_box_range)
    have b: "row_major ss ! k' * Q + r' < prod_list ss"
      using k' fit(1) y(3) by (rule shifted_box_range)
    have ne: "row_major ss ! k' * P + r \<noteq> row_major ss ! k' * Q + r'"
      using k' Cons.prems(2) fit(1) x(3) y(3) by (rule Cons.IH)
    show ?thesis
    proof
      assume "row_major (s # ss) ! k * P + x = row_major (s # ss) ! k * Q + y"
      then have "i * prod_list ss + (row_major ss ! k' * P + r)
                   = j * prod_list ss + (row_major ss ! k' * Q + r')"
        using Suc x(1) y(1) by (simp add: algebra_simps)
      with a b have "i = j \<and> row_major ss ! k' * P + r = row_major ss ! k' * Q + r'"
        by (intro mixed_radix_unique)
      with ne show False by simp
    qed
  qed
qed

subsection \<open>Concatenate\<close>

lemma concat_sizes_ok:
  "0 \<le> axis \<Longrightarrow> \<forall>p\<in>set ps. nat axis < length (shape p) \<Longrightarrow>
   concat_sizes axis ps = Inr (map (\<lambda>p. shape p ! nat axis) ps)"
  by (induction ps) (simp_all add: shape_at_def)

lemma sum_list_nonneg_int: "\<forall>x\<in>set xs. (0::int) \<le> x \<Longrightarrow> 0 \<le> sum_list xs"
  by (induction xs) simp_all

lemma partial_sum_from_ok:
  "0 \<le> acc \<Longrightarrow> \<forall>x\<in>set xs. 0 \<le> x \<Longrightarrow> acc + sum_list xs < 2 ^ 31 \<Longrightarrow>
   partial_sum_from acc xs = Inr (map (\<lambda>i. acc + sum_list (take (Suc i) xs)) [0..<length xs])"
proof (induction xs arbitrary: acc)
  case Nil
  then show ?case by simp
next
  case (Cons x xs)
  have nn: "0 \<le> sum_list xs" using Cons.prems(2) by (simp add: sum_list_nonneg_int)
  have x: "0 \<le> x" using Cons.prems(2) by simp
  have step: "int_add acc x = Inr (acc + x)"
    using Cons.prems(1,3) x nn by (simp add: int_add_def)
  have "partial_sum_from (acc + x) xs
          = Inr (map (\<lambda>i. acc + x + sum_list (take (Suc i) xs)) [0..<length xs])"
    using Cons.prems x by (intro Cons.IH) (simp_all add: add.assoc)
  then show ?case
    by (simp add: step map_upt_Suc add.assoc del: upt_Suc)
qed

lemma partial_sum_ok:
  assumes "\<forall>x\<in>set ns. 0 \<le> x" and "sum_list ns < 2 ^ 31"
  shows "partial_sum (0 # ns) = Inr (map (\<lambda>i. sum_list (take i ns)) [0..<Suc (length ns)])"
proof -
  have "partial_sum_from 0 ns = Inr (map (\<lambda>i. 0 + sum_list (take (Suc i) ns)) [0..<length ns])"
    using assms by (intro partial_sum_from_ok) simp_all
  then show ?thesis
    by (simp add: partial_sum_def map_upt_Suc del: upt_Suc)
qed

lemma emits_Cons: "emits (e # es) st = emits es (emit e st)"
  by (simp add: emits_def emit_def)

lemma concat_loop_ok:
  "size_t axis < length strides1 \<Longrightarrow> length ps \<le> length sizes \<Longrightarrow>
   concat_loop out strides1 flags1 axis ps sizes st
     = Inr (emits (map (\<lambda>i. Copy_gpu_inplace (ps ! i)
                            (concat_slice out strides1 flags1 axis (ps ! i) (sizes ! i))
                            GeneralGeneral) [0..<length ps]) st)"
proof (induction ps arbitrary: sizes st)
  case Nil
  then show ?case by (simp add: emits_def)
next
  case (Cons p ps)
  then obtain s ss where sizes: "sizes = s # ss" by (cases sizes) simp_all
  have "length ps \<le> length ss" using Cons.prems(2) sizes by simp
  with Cons.prems(1) have "concat_loop out strides1 flags1 axis ps ss
        (copy_gpu_inplace p (concat_slice out strides1 flags1 axis p s) GeneralGeneral st)
     = Inr (emits (map (\<lambda>i. Copy_gpu_inplace (ps ! i)
                            (concat_slice out strides1 flags1 axis (ps ! i) (ss ! i))
                            GeneralGeneral) [0..<length ps])
              (copy_gpu_inplace p (concat_slice out strides1 flags1 axis p s) GeneralGeneral st))"
    by (rule Cons.IH)
  then show ?case
    using Cons.prems(1)
    by (simp add: sizes map_upt_Suc emits_Cons copy_gpu_inplace_def del: upt_Suc)
qed

lemma sum_list_take_Suc:
  fixes xs :: "nat list"
  shows "i < length xs \<Longrightarrow> sum_list (take (Suc i) xs) = sum_list (take i xs) + xs ! i"
  by (simp add: take_Suc_conv_app_nth)

lemma sum_list_take_mono:
  fixes xs :: "nat list"
  assumes "a \<le> b"
  shows "sum_list (take a xs) \<le> sum_list (take b xs)"
proof -
  have "take b xs = take a xs @ take (b - a) (drop a xs)"
    using assms by (metis le_add_diff_inverse take_add)
  then show ?thesis by simp
qed

lemma sum_list_take_le:
  fixes xs :: "nat list"
  shows "sum_list (take a xs) \<le> sum_list xs"
  by (metis append_take_drop_id le_add1 sum_list_append)

lemma nat_sum_list:
  "\<forall>x\<in>set xs. (0::int) \<le> x \<Longrightarrow> nat (sum_list xs) = sum_list (map nat xs)"
proof (induction xs)
  case Nil
  show ?case by simp
next
  case (Cons x xs)
  then show ?case by (simp add: nat_add_distrib sum_list_nonneg_int)
qed

lemma flags_cleared:
  "f\<lparr>row_contiguous := False, col_contiguous := False, contiguous := False\<rparr>
     = \<lparr>contiguous = False, row_contiguous = False, col_contiguous = False\<rparr>"
  by (cases f) simp

lemma concat_slice_spec:
  assumes axis: "0 \<le> axis" "axis < 2 ^ 31"
    and dims: "\<forall>p\<in>set inputs. 0 \<le> shape p ! nat axis"
    and total: "sum_list (map (\<lambda>p. shape p ! nat axis) inputs) < 2 ^ 31"
    and range: "strides out ! nat axis
                  * sum_list (map (\<lambda>p. nat (shape p ! nat axis)) inputs) < 2 ^ 64"
    and i: "i < length inputs"
  shows "concat_slice (out\<lparr>data := Some buf, offset := 0\<rparr>) (strides out)
           \<lparr>contiguous = False, row_contiguous = False, col_contiguous = False\<rparr> axis
           (inputs ! i) (sum_list (take i (map (\<lambda>p. shape p ! nat axis) inputs)))
         = spec_concat_view out buf axis inputs i"
proof -
  let ?ns = "map (\<lambda>p. shape p ! nat axis) inputs"
  let ?s = "sum_list (take i ?ns)"
  have nn: "\<forall>x\<in>set ?ns. 0 \<le> x" using dims by simp
  then have nnt: "\<forall>x\<in>set (take i ?ns). 0 \<le> x" by (meson in_set_takeD)
  have s0: "0 \<le> ?s" using nnt by (rule sum_list_nonneg_int)
  have natns: "map nat ?ns = map (\<lambda>p. nat (shape p ! nat axis)) inputs" by simp
  have nats: "nat ?s = sum_list (map (\<lambda>p. nat (shape p ! nat axis)) (take i inputs))"
    using nat_sum_list [OF nnt] by (simp add: take_map comp_def)
  have le: "nat ?s \<le> sum_list (map (\<lambda>p. nat (shape p ! nat axis)) inputs)"
    unfolding nats take_map [symmetric] by (rule sum_list_take_le)
  have "\<forall>x\<in>set (drop i ?ns). 0 \<le> x" using nn by (meson in_set_dropD)
  then have "0 \<le> sum_list (drop i ?ns)" by (rule sum_list_nonneg_int)
  moreover have "sum_list ?ns = ?s + sum_list (drop i ?ns)"
    by (metis append_take_drop_id sum_list_append)
  ultimately have "?s < 2 ^ 31" using total by linarith
  then have st: "size_t ?s = nat ?s" using s0 by (simp add: size_t_nat)
  have "strides out ! nat axis * nat ?s
          \<le> strides out ! nat axis * sum_list (map (\<lambda>p. nat (shape p ! nat axis)) inputs)"
    using le by (rule mult_le_mono2)
  then have "strides out ! nat axis * nat ?s < 2 ^ 64" using range by (rule le_less_trans)
  then have mul: "sz_mul (strides out ! nat axis) (nat ?s) = strides out ! nat axis * nat ?s"
    by (rule sz_mul_small)
  have ax: "size_t axis = nat axis" using axis by (simp add: size_t_nat)
  show ?thesis
    by (simp add: concat_slice_def Let_def ax st mul [unfolded nats] nats copy_shared_buffer5_def new_array_def
        spec_concat_view_def spec_concat_offset_def array_size_def)
qed

lemma Concatenate_run:
  assumes axis: "0 \<le> axis" "axis < 2 ^ 31" "nat axis < length (strides out)"
    and dims: "\<forall>p\<in>set inputs. nat axis < length (shape p) \<and> 0 \<le> shape p ! nat axis"
    and total: "sum_list (map (\<lambda>p. shape p ! nat axis) inputs) < 2 ^ 31"
    and range: "strides out ! nat axis
                  * sum_list (map (\<lambda>p. nat (shape p ! nat axis)) inputs) < 2 ^ 64"
  shows "Concatenate_eval_gpu axis inputs out st
     = Inr (out\<lparr>data := Some (Buffer (next_buffer st)), offset := 0\<rparr>,
            st\<lparr>trace := trace st @ [Malloc_or_wait (nbytes out), Start_concurrent]
               @ map (\<lambda>i. Copy_gpu_inplace (inputs ! i)
                            (spec_concat_view out (Buffer (next_buffer st)) axis inputs i)
                            GeneralGeneral) [0..<length inputs],
             next_buffer := Suc (next_buffer st)\<rparr>)"
proof -
  let ?ns = "map (\<lambda>p. shape p ! nat axis) inputs"
  let ?sizes = "map (\<lambda>i. sum_list (take i ?ns)) [0..<Suc (length inputs)]"
  let ?out1 = "out\<lparr>data := Some (Buffer (next_buffer st)), offset := 0\<rparr>"
  let ?cleared = "\<lparr>contiguous = False, row_contiguous = False, col_contiguous = False\<rparr>"
  have nn: "\<forall>p\<in>set inputs. 0 \<le> shape p ! nat axis" using dims by simp
  have cs: "concat_sizes axis inputs = Inr ?ns"
    using axis(1) dims by (intro concat_sizes_ok) simp_all
  have "partial_sum (0 # ?ns)
          = Inr (map (\<lambda>i. sum_list (take i ?ns)) [0..<Suc (length ?ns)])"
    using nn total by (intro partial_sum_ok) simp_all
  then have ps: "partial_sum (0 # ?ns) = Inr ?sizes"
    by (simp only: length_map)
  have ax: "size_t axis < length (strides out)"
    using axis by (simp add: size_t_nat)
  have "length inputs \<le> length ?sizes" by simp
  with ax have loop: "concat_loop ?out1 (strides out) ?cleared axis inputs ?sizes st2
      = Inr (emits (map (\<lambda>i. Copy_gpu_inplace (inputs ! i)
                           (concat_slice ?out1 (strides out) ?cleared axis (inputs ! i) (?sizes ! i))
                           GeneralGeneral) [0..<length inputs]) st2)" for st2
    by (rule concat_loop_ok)
  have slices: "map (\<lambda>i. Copy_gpu_inplace (inputs ! i)
                   (concat_slice ?out1 (strides out) ?cleared axis (inputs ! i) (?sizes ! i))
                   GeneralGeneral) [0..<length inputs]
      = map (\<lambda>i. Copy_gpu_inplace (inputs ! i)
                   (spec_concat_view out (Buffer (next_buffer st)) axis inputs i)
                   GeneralGeneral) [0..<length inputs]"
  proof (rule map_cong [OF refl])
    fix i assume "i \<in> set [0..<length inputs]"
    then have i: "i < length inputs" by simp
    then have "?sizes ! i = sum_list (take i ?ns)"
      by (simp add: nth_map_upt del: upt_Suc)
    then show "Copy_gpu_inplace (inputs ! i)
          (concat_slice ?out1 (strides out) ?cleared axis (inputs ! i) (?sizes ! i)) GeneralGeneral
        = Copy_gpu_inplace (inputs ! i)
          (spec_concat_view out (Buffer (next_buffer st)) axis inputs i) GeneralGeneral"
      using concat_slice_spec [OF axis(1,2) nn total range i, of "Buffer (next_buffer st)"]
      by simp
  qed
  show ?thesis
    unfolding Concatenate_eval_gpu_def
    by (simp add: cs ps malloc_or_wait_def set_data_def emit_def flags_cleared Let_def
        loop [unfolded slices] emits_def del: upt_Suc)
qed

lemma concat_views_disjoint:
  assumes rm: "strides out = row_major (map nat (shape out))"
    and k: "nat axis < length (shape out)"
    and same: "\<forall>p\<in>set inputs. map nat (shape p)
                  = (map nat (shape out))[nat axis := nat (shape p ! nat axis)]"
    and fit: "sum_list (map (\<lambda>p. nat (shape p ! nat axis)) inputs) \<le> nat (shape out ! nat axis)"
    and ij: "i < j" "j < length inputs"
  shows "set (view_elems (spec_concat_view out buf axis inputs i))
           \<inter> set (view_elems (spec_concat_view out buf axis inputs j)) = {}"
proof -
  let ?S = "map nat (shape out)"
  let ?ns = "map (\<lambda>p. nat (shape p ! nat axis)) inputs"
  let ?P = "sum_list (take i ?ns)"
  let ?Q = "sum_list (take j ?ns)"
  have i: "i < length inputs" using ij by simp
  have kS: "nat axis < length ?S" using k by simp
  have "?P + ?ns ! i = sum_list (take (Suc i) ?ns)"
    using i by (simp add: sum_list_take_Suc del: take_map)
  also have "\<dots> \<le> ?Q" using ij(1) by (intro sum_list_take_mono) simp
  finally have PQ: "?P + nat (shape (inputs ! i) ! nat axis) \<le> ?Q" using i by simp
  have "?Q + ?ns ! j = sum_list (take (Suc j) ?ns)"
    using ij(2) by (simp add: sum_list_take_Suc del: take_map)
  also have "\<dots> \<le> sum_list ?ns" by (rule sum_list_take_le)
  also have "\<dots> \<le> ?S ! nat axis" using fit k by simp
  finally have QS: "?Q + nat (shape (inputs ! j) ! nat axis) \<le> ?S ! nat axis"
    using ij(2) by simp
  have si: "map nat (shape (inputs ! i)) = ?S[nat axis := nat (shape (inputs ! i) ! nat axis)]"
    using same i by simp
  have sj: "map nat (shape (inputs ! j)) = ?S[nat axis := nat (shape (inputs ! j) ! nat axis)]"
    using same ij(2) by simp
  have vi: "view_elems (spec_concat_view out buf axis inputs i)
      = map (\<lambda>r. row_major ?S ! nat axis * ?P + r)
          (elem_offsets (?S[nat axis := nat (shape (inputs ! i) ! nat axis)]) (row_major ?S))"
    by (simp add: view_elems_def spec_concat_view_def spec_concat_offset_def si rm take_map
        del: map_map)
  have vj: "view_elems (spec_concat_view out buf axis inputs j)
      = map (\<lambda>r. row_major ?S ! nat axis * ?Q + r)
          (elem_offsets (?S[nat axis := nat (shape (inputs ! j) ! nat axis)]) (row_major ?S))"
    by (simp add: view_elems_def spec_concat_view_def spec_concat_offset_def sj rm take_map
        del: map_map)
  show ?thesis
  proof (rule ccontr)
    assume "set (view_elems (spec_concat_view out buf axis inputs i))
           \<inter> set (view_elems (spec_concat_view out buf axis inputs j)) \<noteq> {}"
    then obtain z where "z \<in> set (view_elems (spec_concat_view out buf axis inputs i))"
        "z \<in> set (view_elems (spec_concat_view out buf axis inputs j))"
      by blast
    then obtain x y where
        x: "x \<in> set (elem_offsets (?S[nat axis := nat (shape (inputs ! i) ! nat axis)])
                      (row_major ?S))" "z = row_major ?S ! nat axis * ?P + x"
      and y: "y \<in> set (elem_offsets (?S[nat axis := nat (shape (inputs ! j) ! nat axis)])
                      (row_major ?S))" "z = row_major ?S ! nat axis * ?Q + y"
      unfolding vi vj by auto
    have "row_major ?S ! nat axis * ?P + x \<noteq> row_major ?S ! nat axis * ?Q + y"
      using kS PQ QS x(1) y(1) by (rule shifted_boxes_disjoint)
    with x(2) y(2) show False by simp
  qed
qed

text \<open>
  C8. A Concatenate along an axis within the rank allocates the output, opens a
  concurrent region and requests one GeneralGeneral copy per input, in order. The
  destination of input \<open>i\<close> is a view of the output's buffer with the input's shape and the
  output's strides, with the contiguous, row-contiguous and column-contiguous flags all
  cleared, at the offset that is the sum of the sizes along the axis of the inputs before
  it times the output's stride along the axis. When the output is laid out row-major,
  the inputs have the output's shape except along the axis, and their sizes along the
  axis fit the output's, the views of distinct inputs address disjoint positions of the
  buffer. Sizes are non-negative 32-bit values whose sum does not overflow, and the
  largest offset fits a \<^verbatim>\<open>size_t\<close>.
\<close>

theorem Concatenate_offsets_and_views:
  assumes axis: "0 \<le> axis" "axis < 2 ^ 31" "nat axis < length (strides out)"
    and dims: "\<forall>p\<in>set inputs. nat axis < length (shape p) \<and> 0 \<le> shape p ! nat axis"
    and total: "sum_list (map (\<lambda>p. shape p ! nat axis) inputs) < 2 ^ 31"
    and range: "strides out ! nat axis
                  * sum_list (map (\<lambda>p. nat (shape p ! nat axis)) inputs) < 2 ^ 64"
  shows "Concatenate_eval_gpu axis inputs out st
     = Inr (out\<lparr>data := Some (Buffer (next_buffer st)), offset := 0\<rparr>,
            st\<lparr>trace := trace st @ [Malloc_or_wait (nbytes out), Start_concurrent]
               @ map (\<lambda>i. Copy_gpu_inplace (inputs ! i)
                            (spec_concat_view out (Buffer (next_buffer st)) axis inputs i)
                            GeneralGeneral) [0..<length inputs],
             next_buffer := Suc (next_buffer st)\<rparr>)
     \<and> (strides out = row_major (map nat (shape out))
        \<and> nat axis < length (shape out)
        \<and> (\<forall>p\<in>set inputs. map nat (shape p)
                  = (map nat (shape out))[nat axis := nat (shape p ! nat axis)])
        \<and> sum_list (map (\<lambda>p. nat (shape p ! nat axis)) inputs) \<le> nat (shape out ! nat axis)
        \<longrightarrow> (\<forall>i<length inputs. \<forall>j<length inputs. i \<noteq> j \<longrightarrow>
               set (view_elems (spec_concat_view out (Buffer (next_buffer st)) axis inputs i))
                 \<inter> set (view_elems (spec_concat_view out (Buffer (next_buffer st)) axis inputs j))
               = {}))"
proof (intro conjI impI allI)
  show "Concatenate_eval_gpu axis inputs out st
     = Inr (out\<lparr>data := Some (Buffer (next_buffer st)), offset := 0\<rparr>,
            st\<lparr>trace := trace st @ [Malloc_or_wait (nbytes out), Start_concurrent]
               @ map (\<lambda>i. Copy_gpu_inplace (inputs ! i)
                            (spec_concat_view out (Buffer (next_buffer st)) axis inputs i)
                            GeneralGeneral) [0..<length inputs],
             next_buffer := Suc (next_buffer st)\<rparr>)"
    using axis dims total range by (rule Concatenate_run)
next
  fix i j
  assume layout: "strides out = row_major (map nat (shape out))
        \<and> nat axis < length (shape out)
        \<and> (\<forall>p\<in>set inputs. map nat (shape p)
                  = (map nat (shape out))[nat axis := nat (shape p ! nat axis)])
        \<and> sum_list (map (\<lambda>p. nat (shape p ! nat axis)) inputs) \<le> nat (shape out ! nat axis)"
    and i: "i < length inputs" and j: "j < length inputs" and ne: "i \<noteq> j"
  from layout have rm: "strides out = row_major (map nat (shape out))"
    and k: "nat axis < length (shape out)"
    and same: "\<forall>p\<in>set inputs. map nat (shape p)
                  = (map nat (shape out))[nat axis := nat (shape p ! nat axis)]"
    and fit: "sum_list (map (\<lambda>p. nat (shape p ! nat axis)) inputs) \<le> nat (shape out ! nat axis)"
    by simp_all
  from ne consider "i < j" | "j < i" by arith
  then show "set (view_elems (spec_concat_view out (Buffer (next_buffer st)) axis inputs i))
                 \<inter> set (view_elems (spec_concat_view out (Buffer (next_buffer st)) axis inputs j))
               = {}"
  proof cases
    case 1
    with rm k same fit show ?thesis using j by (rule concat_views_disjoint)
  next
    case 2
    with rm k same fit
    have "set (view_elems (spec_concat_view out (Buffer (next_buffer st)) axis inputs j))
            \<inter> set (view_elems (spec_concat_view out (Buffer (next_buffer st)) axis inputs i))
          = {}"
      using i by (rule concat_views_disjoint)
    then show ?thesis by (simp add: Int_commute)
  qed
qed

theorem Concatenate_offsets_and_views_witness:
  "Concatenate_eval_gpu 1
     [\<lparr>shape = [2, 2], dtype = float32, itemsize = 4, strides = [2, 1],
       flags = \<lparr>contiguous = True, row_contiguous = True, col_contiguous = False\<rparr>,
       data_size = 4, data = Some (Buffer 0), offset = 0\<rparr>,
      \<lparr>shape = [2, 3], dtype = float32, itemsize = 4, strides = [3, 1],
       flags = \<lparr>contiguous = True, row_contiguous = True, col_contiguous = False\<rparr>,
       data_size = 6, data = Some (Buffer 1), offset = 0\<rparr>]
     \<lparr>shape = [2, 5], dtype = float32, itemsize = 4, strides = [5, 1],
      flags = \<lparr>contiguous = True, row_contiguous = True, col_contiguous = False\<rparr>,
      data_size = 10, data = None, offset = 0\<rparr>
     \<lparr>trace = [], next_buffer = 2\<rparr>
   = Inr (\<lparr>shape = [2, 5], dtype = float32, itemsize = 4, strides = [5, 1],
      flags = \<lparr>contiguous = True, row_contiguous = True, col_contiguous = False\<rparr>,
      data_size = 10, data = Some (Buffer 2), offset = 0\<rparr>,
      \<lparr>trace = [Malloc_or_wait 40, Start_concurrent,
         Copy_gpu_inplace
           \<lparr>shape = [2, 2], dtype = float32, itemsize = 4, strides = [2, 1],
            flags = \<lparr>contiguous = True, row_contiguous = True, col_contiguous = False\<rparr>,
            data_size = 4, data = Some (Buffer 0), offset = 0\<rparr>
           \<lparr>shape = [2, 2], dtype = float32, itemsize = 4, strides = [5, 1],
            flags = \<lparr>contiguous = False, row_contiguous = False, col_contiguous = False\<rparr>,
            data_size = 4, data = Some (Buffer 2), offset = 0\<rparr>
           GeneralGeneral,
         Copy_gpu_inplace
           \<lparr>shape = [2, 3], dtype = float32, itemsize = 4, strides = [3, 1],
            flags = \<lparr>contiguous = True, row_contiguous = True, col_contiguous = False\<rparr>,
            data_size = 6, data = Some (Buffer 1), offset = 0\<rparr>
           \<lparr>shape = [2, 3], dtype = float32, itemsize = 4, strides = [5, 1],
            flags = \<lparr>contiguous = False, row_contiguous = False, col_contiguous = False\<rparr>,
            data_size = 6, data = Some (Buffer 2), offset = 2\<rparr>
           GeneralGeneral],
       next_buffer = 3\<rparr>)
   \<and> set (view_elems \<lparr>shape = [2, 2], dtype = float32, itemsize = 4, strides = [5, 1],
            flags = \<lparr>contiguous = False, row_contiguous = False, col_contiguous = False\<rparr>,
            data_size = 4, data = Some (Buffer 2), offset = 0\<rparr>)
       \<inter> set (view_elems \<lparr>shape = [2, 3], dtype = float32, itemsize = 4, strides = [5, 1],
            flags = \<lparr>contiguous = False, row_contiguous = False, col_contiguous = False\<rparr>,
            data_size = 6, data = Some (Buffer 2), offset = 2\<rparr>) = {}"
proof -
  let ?out = "\<lparr>shape = [2, 5], dtype = float32, itemsize = 4, strides = [5, 1],
      flags = \<lparr>contiguous = True, row_contiguous = True, col_contiguous = False\<rparr>,
      data_size = 10, data = None, offset = 0\<rparr>"
  let ?ins = "[\<lparr>shape = [2, 2], dtype = float32, itemsize = 4, strides = [2, 1],
       flags = \<lparr>contiguous = True, row_contiguous = True, col_contiguous = False\<rparr>,
       data_size = 4, data = Some (Buffer 0), offset = 0\<rparr>,
      \<lparr>shape = [2, 3], dtype = float32, itemsize = 4, strides = [3, 1],
       flags = \<lparr>contiguous = True, row_contiguous = True, col_contiguous = False\<rparr>,
       data_size = 6, data = Some (Buffer 1), offset = 0\<rparr>]"
  let ?st = "\<lparr>trace = [], next_buffer = 2\<rparr>"
  have a1: "(0::int) \<le> 1" by simp
  have a2: "(1::int) < 2 ^ 31" by simp
  have a3: "nat 1 < length (strides ?out)" by simp
  have a4: "\<forall>p\<in>set ?ins. nat 1 < length (shape p) \<and> 0 \<le> shape p ! nat 1" by simp
  have a5: "sum_list (map (\<lambda>p. shape p ! nat 1) ?ins) < 2 ^ 31" by simp
  have a6: "strides ?out ! nat 1 * sum_list (map (\<lambda>p. nat (shape p ! nat 1)) ?ins) < 2 ^ 64"
    by simp
  note inst = Concatenate_offsets_and_views [OF a1 a2 a3 a4 a5 a6, of ?st]
  have layout: "strides ?out = row_major (map nat (shape ?out))
        \<and> nat 1 < length (shape ?out)
        \<and> (\<forall>p\<in>set ?ins. map nat (shape p)
                  = (map nat (shape ?out))[nat 1 := nat (shape p ! nat 1)])
        \<and> sum_list (map (\<lambda>p. nat (shape p ! nat 1)) ?ins) \<le> nat (shape ?out ! nat 1)"
    by simp
  have "(0::nat) < length ?ins" "(1::nat) < length ?ins" "(0::nat) \<noteq> 1" by simp_all
  then have d: "set (view_elems (spec_concat_view ?out (Buffer (next_buffer ?st)) 1 ?ins 0))
          \<inter> set (view_elems (spec_concat_view ?out (Buffer (next_buffer ?st)) 1 ?ins 1)) = {}"
    using inst [THEN conjunct2, THEN mp, OF layout] by blast
  show ?thesis
    using inst [THEN conjunct1] d
    by (simp add: nbytes_def array_size_def spec_concat_view_def spec_concat_offset_def
        upt_rec [of 0 2] upt_rec [of 1 2])
qed

end
